theory Spec2Isabelle
  imports Main "HOL-Library.AList"
begin

section \<open>Python values\<close>

text \<open>
  The step executor of \<^verbatim>\<open>app/executor/step_executor.py\<close> works on dynamically typed
  payloads: \<^verbatim>\<open>action_data\<close>, step results and the pause payload are dictionaries
  with string keys holding arbitrary JSON-like values. A dictionary is an association
  list in insertion order; \<^verbatim>\<open>d[k] = v\<close> is \<open>AList.update\<close>
  (an existing key keeps its place, a new key goes last).
\<close>

datatype pyval =
    PNone
  | PBool bool
  | PInt int
  | PStr string
  | PList "pyval list"
  | PDict "(string \<times> pyval) list"

type_synonym pydict = "(string \<times> pyval) list"

text \<open>Truth value of a Python object, as tested by \<^verbatim>\<open>if x:\<close> and \<^verbatim>\<open>x or y\<close>.\<close>

fun truthy :: "pyval \<Rightarrow> bool" where
  "truthy PNone = False"
| "truthy (PBool b) = b"
| "truthy (PInt i) = (i \<noteq> 0)"
| "truthy (PStr s) = (s \<noteq> [])"
| "truthy (PList xs) = (xs \<noteq> [])"
| "truthy (PDict d) = (d \<noteq> [])"

definition py_or :: "pyval \<Rightarrow> pyval \<Rightarrow> pyval" where
  "py_or a b = (if truthy a then a else b)"

fun type_name :: "pyval \<Rightarrow> string" where
  "type_name PNone = ''NoneType''"
| "type_name (PBool b) = ''bool''"
| "type_name (PInt i) = ''int''"
| "type_name (PStr s) = ''str''"
| "type_name (PList xs) = ''list''"
| "type_name (PDict d) = ''dict''"

text \<open>\<^verbatim>\<open>d.get(k)\<close> and \<^verbatim>\<open>d.get(k, default)\<close>.\<close>

definition dict_get_default :: "pydict \<Rightarrow> string \<Rightarrow> pyval \<Rightarrow> pyval" where
  "dict_get_default d k dflt = (case map_of d k of None \<Rightarrow> dflt | Some v \<Rightarrow> v)"

definition dict_get :: "pydict \<Rightarrow> string \<Rightarrow> pyval" where
  "dict_get d k = dict_get_default d k PNone"

text \<open>\<^verbatim>\<open>{**base, **extra}\<close>: the entries of \<open>extra\<close> are written into \<open>base\<close> in order.\<close>

definition dict_merge :: "pydict \<Rightarrow> pydict \<Rightarrow> pydict" where
  "dict_merge base extra = foldl (\<lambda>d kv. AList.update (fst kv) (snd kv) d) base extra"

section \<open>Exceptions\<close>

text \<open>
  Every raise of the source is a value. \<open>ApprovalRequired message step_id draft_content\<close>
  is the class of that name; \<open>PyError cls msg\<close> is any other instance of
  \<^verbatim>\<open>Exception\<close>, with its class name and its \<^verbatim>\<open>str(e)\<close>; \<open>PyBaseError cls msg\<close> is
  an exception that is not an instance of \<^verbatim>\<open>Exception\<close> (\<^verbatim>\<open>SystemExit\<close>,
  \<^verbatim>\<open>KeyboardInterrupt\<close>, \<^verbatim>\<open>GeneratorExit\<close>), which \<^verbatim>\<open>except Exception\<close> lets through.
\<close>

datatype exn =
    ApprovalRequired pyval string pyval
  | PyError string string
  | PyBaseError string string

text \<open>\<^verbatim>\<open>isinstance(e, Exception)\<close>: what an \<^verbatim>\<open>except Exception\<close> clause catches.\<close>

fun is_Exception :: "exn \<Rightarrow> bool" where
  "is_Exception (ApprovalRequired m s d) = True"
| "is_Exception (PyError c m) = True"
| "is_Exception (PyBaseError c m) = False"

section \<open>Steps and the execution context\<close>

text \<open>
  \<^verbatim>\<open>Step\<close>, \<^verbatim>\<open>StepAction\<close>, \<^verbatim>\<open>StepStatus\<close> and \<^verbatim>\<open>ExecutionContext\<close> are imported by the
  step executor from \<^verbatim>\<open>.models\<close>; the records below have the fields the executor reads
  and writes. \<open>OTHER_ACTION\<close> stands for any value of \<^verbatim>\<open>step.action\<close> that is not a key
  of the handler table (the table is consulted with \<^verbatim>\<open>.get\<close>, so such a value is
  possible and is handled).
\<close>

datatype StepAction =
    LLM_CALL | TOOL_CALL | APPROVAL | CONDITION | AGGREGATE
  | OTHER_ACTION string

datatype StepStatus = PENDING | RUNNING | COMPLETED | FAILED

record Step =
  step_id :: string
  action :: StepAction
  action_data :: pydict
  depends_on :: "string list"
  status :: StepStatus
  result :: pyval
  error :: "string option"
  started_at :: "nat option"
  completed_at :: "nat option"

record ExecutionContext =
  task_id :: int
  user_id :: int
  input_text :: string
  step_results :: pydict
  steps_executed :: int

text \<open>
  Modelled from the spec: \<^verbatim>\<open>ExecutionContext.add_step_result\<close> and
  \<^verbatim>\<open>ExecutionContext.get_step_result\<close> are defined in \<^verbatim>\<open>.models\<close>, outside the
  modules modelled here. The context holds "a mapping step_id\<rightarrow>result for completed
  Steps"; a lookup of an id that has no entry (or of a value that is not a string) yields
  \<^verbatim>\<open>None\<close>.
\<close>

definition add_step_result :: "ExecutionContext \<Rightarrow> string \<Rightarrow> pyval \<Rightarrow> ExecutionContext" where
  "add_step_result ctx sid r = ctx\<lparr>step_results := AList.update sid r (step_results ctx)\<rparr>"

fun get_step_result :: "ExecutionContext \<Rightarrow> pyval \<Rightarrow> pyval" where
  "get_step_result ctx (PStr sid) = dict_get (step_results ctx) sid"
| "get_step_result ctx v = PNone"

section \<open>Collaborators of the step executor\<close>

text \<open>
  The executor is built over a task manager, an optional completion provider and the
  tool registry, and calls text helpers (prompt construction, post-processing,
  \<^verbatim>\<open>str\<close>) whose output is free text. They are parameters of the model: a call that
  can raise returns \<open>exn + _\<close>. The task manager is a state of an arbitrary type
  \<open>'tm\<close>; \<open>task_manager_pause\<close> returns the new state and the exception it raised, if
  any. A registry entry is the handler together with the names of its declared
  parameters, which the code reads with \<^verbatim>\<open>inspect.signature\<close>.
\<close>

datatype PauseReason = PauseReason_APPROVAL

record LLMResponse =
  content :: pyval
  model :: pyval
  total_tokens :: pyval

record ToolSpec =
  handler :: "pydict \<Rightarrow> exn + pyval"
  signature_parameters :: "string list"

record 'tm StepExecutor =
  task_manager_pause :: "'tm \<Rightarrow> int \<Rightarrow> PauseReason \<Rightarrow> pydict \<Rightarrow> exn option \<times> 'tm"
  llm_service :: "(pyval \<Rightarrow> pyval \<Rightarrow> int \<Rightarrow> int \<Rightarrow> exn + LLMResponse) option"
  tool_registry_get :: "pyval \<Rightarrow> ToolSpec option"
  py_str :: "pyval \<Rightarrow> string"
  build_smm_prompt :: "pyval \<Rightarrow> pyval \<Rightarrow> pyval list \<Rightarrow> pyval \<Rightarrow> pydict \<Rightarrow> exn + pyval \<times> pyval"
  get_system_prompt :: "pyval \<Rightarrow> pyval"
  prompt_format :: "pyval \<Rightarrow> pyval \<Rightarrow> pyval list \<Rightarrow> pydict \<Rightarrow> exn + pyval"
  build_prompt :: "pyval \<Rightarrow> pyval \<Rightarrow> pyval list \<Rightarrow> pydict \<Rightarrow> exn + pyval"
  markdown_to_html :: "pyval \<Rightarrow> exn + pyval"
  apply_style_postprocess :: "pyval \<Rightarrow> pyval \<Rightarrow> exn + pyval"
  mock_llm_response :: "pyval \<Rightarrow> pyval \<Rightarrow> exn + pyval"
  memory_content_text :: "pyval \<Rightarrow> pyval \<Rightarrow> pyval"

text \<open>\<^verbatim>\<open>str(e)\<close>: \<^verbatim>\<open>ApprovalRequired\<close> passes its message to \<^verbatim>\<open>Exception.__init__\<close>.\<close>

fun exn_str :: "'tm StepExecutor \<Rightarrow> exn \<Rightarrow> string" where
  "exn_str se (ApprovalRequired m s d) = py_str se m"
| "exn_str se (PyError c m) = m"
| "exn_str se (PyBaseError c m) = m"

definition quoted :: "string \<Rightarrow> string" where
  "quoted s = CHR 0x27 # s @ [CHR 0x27]"

text \<open>\<^verbatim>\<open>s.startswith(prefix)\<close>; only a string has the method.\<close>

fun py_startswith :: "pyval \<Rightarrow> string \<Rightarrow> exn + bool" where
  "py_startswith (PStr s) p = Inr (take (length p) s = p)"
| "py_startswith v p =
     Inl (PyError ''AttributeError''
            (quoted (type_name v) @ '' object has no attribute '' @ quoted ''startswith''))"

text \<open>
  \<^verbatim>\<open>x[:n]\<close>: strings and lists are sliced, anything else raises (for a dictionary
  the class of the exception depends on the interpreter version).
\<close>

fun py_slice_to :: "nat \<Rightarrow> pyval \<Rightarrow> exn + pyval" where
  "py_slice_to n (PStr s) = Inr (PStr (take n s))"
| "py_slice_to n (PList xs) = Inr (PList (take n xs))"
| "py_slice_to n (PDict d) = Inl (PyError ''TypeError'' (''unhashable type: '' @ quoted ''slice''))"
| "py_slice_to n v =
     Inl (PyError ''TypeError'' (quoted (type_name v) @ '' object is not subscriptable''))"

text \<open>\<^verbatim>\<open>for x in v\<close>: the elements of a list, the characters of a string, the keys of a dictionary.\<close>

fun py_iter :: "pyval \<Rightarrow> exn + pyval list" where
  "py_iter (PList xs) = Inr xs"
| "py_iter (PStr s) = Inr (map (\<lambda>c. PStr [c]) s)"
| "py_iter (PDict d) = Inr (map (\<lambda>kv. PStr (fst kv)) d)"
| "py_iter v = Inl (PyError ''TypeError'' (quoted (type_name v) @ '' object is not iterable''))"

section \<open>Handlers\<close>

subsection \<open>\<^verbatim>\<open>_handle_llm_call\<close>\<close>

text \<open>The results of the steps this one depends on, those that are truthy.\<close>

definition prev_results :: "Step \<Rightarrow> ExecutionContext \<Rightarrow> pyval list" where
  "prev_results step ctx =
     filter truthy (map (\<lambda>dep_id. get_step_result ctx (PStr dep_id)) (depends_on step))"

definition llm_purpose :: "Step \<Rightarrow> pyval" where
  "llm_purpose step = dict_get_default (action_data step) ''purpose'' (PStr ''general'')"

definition llm_input_text :: "Step \<Rightarrow> ExecutionContext \<Rightarrow> pyval" where
  "llm_input_text step ctx =
     py_or (dict_get (action_data step) ''input_text'') (PStr (input_text ctx))"

text \<open>The first part of the \<^verbatim>\<open>try\<close> block: the system prompt and the user prompt.\<close>

definition llm_prompts :: "'tm StepExecutor \<Rightarrow> Step \<Rightarrow> ExecutionContext \<Rightarrow> exn + pyval \<times> pyval" where
  "llm_prompts se step ctx =
     (let ad = action_data step;
          purpose = llm_purpose step;
          input = llm_input_text step ctx;
          system_prompt = dict_get_default ad ''system_prompt'' (PStr []);
          prompt_template = dict_get_default ad ''prompt'' (PStr []);
          smm_context = dict_get_default ad ''smm_context'' (PStr []);
          prev = prev_results step ctx
      in case py_startswith purpose ''smm_'' of
           Inl e \<Rightarrow> Inl e
         | Inr True \<Rightarrow> build_smm_prompt se purpose input prev smm_context ad
         | Inr False \<Rightarrow>
             (if truthy prompt_template then
                (case prompt_format se prompt_template (py_or input (PStr [])) prev ad of
                   Inl e \<Rightarrow> Inl e
                 | Inr user_prompt \<Rightarrow>
                     Inr (py_or system_prompt (get_system_prompt se purpose), user_prompt))
              else
                (case build_prompt se purpose input prev ad of
                   Inl e \<Rightarrow> Inl e
                 | Inr user_prompt \<Rightarrow>
                     Inr (py_or system_prompt (get_system_prompt se purpose), user_prompt))))"

text \<open>The rest of the \<^verbatim>\<open>try\<close> block, after the provider has answered.\<close>

definition llm_result :: "'tm StepExecutor \<Rightarrow> Step \<Rightarrow> LLMResponse \<Rightarrow> exn + pyval" where
  "llm_result se step response =
     (let purpose = llm_purpose step;
          smm_context = dict_get_default (action_data step) ''smm_context'' (PStr []);
          wrap = (\<lambda>c. PDict [(''purpose'', purpose), (''response'', c),
                              (''model'', model response),
                              (''tokens_used'', total_tokens response)])
      in case py_startswith purpose ''smm_generate'' of
           Inl e \<Rightarrow> Inl e
         | Inr True \<Rightarrow>
             (case markdown_to_html se (content response) of
                Inl e \<Rightarrow> Inl e
              | Inr html \<Rightarrow>
                  (case apply_style_postprocess se html smm_context of
                     Inl e \<Rightarrow> Inl e
                   | Inr styled \<Rightarrow> Inr (wrap styled)))
         | Inr False \<Rightarrow> Inr (wrap (content response)))"

definition llm_try ::
  "'tm StepExecutor \<Rightarrow> (pyval \<Rightarrow> pyval \<Rightarrow> int \<Rightarrow> int \<Rightarrow> exn + LLMResponse) \<Rightarrow> Step \<Rightarrow>
     ExecutionContext \<Rightarrow> exn + pyval" where
  "llm_try se complete step ctx =
     (case llm_prompts se step ctx of
        Inl e \<Rightarrow> Inl e
      | Inr (sys_prompt, user_prompt) \<Rightarrow>
          (case complete sys_prompt user_prompt (user_id ctx) (task_id ctx) of
             Inl e \<Rightarrow> Inl e
           | Inr response \<Rightarrow> llm_result se step response))"

definition handle_llm_call :: "'tm StepExecutor \<Rightarrow> Step \<Rightarrow> ExecutionContext \<Rightarrow> exn + pyval" where
  "handle_llm_call se step ctx =
     (case llm_service se of
        Some complete \<Rightarrow>
          (case llm_try se complete step ctx of
             Inr r \<Rightarrow> Inr r
           | Inl e \<Rightarrow>
               (if is_Exception e
                then Inr (PDict [(''purpose'', llm_purpose step), (''error'', PStr (exn_str se e))])
                else Inl e))
      | None \<Rightarrow>
          (case mock_llm_response se (llm_purpose step) (llm_input_text step ctx) of
             Inl e \<Rightarrow> Inl e
           | Inr text \<Rightarrow>
               Inr (PDict [(''purpose'', llm_purpose step), (''response'', text),
                           (''model'', PStr ''mock''), (''tokens_used'', PInt 0)])))"

subsection \<open>\<^verbatim>\<open>_handle_tool_call\<close>\<close>

definition tool_name_of :: "Step \<Rightarrow> pyval" where
  "tool_name_of step = dict_get_default (action_data step) ''tool'' (PStr ''unknown'')"

text \<open>
  The argument map assembled before the registry is consulted. This part is outside
  the \<^verbatim>\<open>try\<close> block, so the slice of a stored response that is neither a string nor
  a list raises out of the handler.
\<close>

definition tool_params :: "'tm StepExecutor \<Rightarrow> Step \<Rightarrow> ExecutionContext \<Rightarrow> exn + pydict" where
  "tool_params se step ctx =
     (let ad = action_data step;
          tool_name = tool_name_of step;
          params0 = filter (\<lambda>kv. fst kv \<noteq> ''tool'' \<and> fst kv \<noteq> ''source_step_id'') ad;
          params1 = (if map_of params0 ''user_id'' = None
                     then AList.update ''user_id'' (PInt (user_id ctx)) params0
                     else params0);
          source_step_id = dict_get ad ''source_step_id'';
          params2 =
            (if tool_name = PStr ''compute_channel_metrics'' \<and> truthy source_step_id then
               (case get_step_result ctx source_step_id of
                  PDict d \<Rightarrow>
                    (if d \<noteq> []
                     then AList.update ''posts'' (dict_get_default d ''posts'' (PList [])) params1
                     else params1)
                | _ \<Rightarrow> params1)
             else params1)
      in if tool_name = PStr ''memory_store'' \<and> truthy source_step_id then
           (case get_step_result ctx source_step_id of
              PDict d \<Rightarrow>
                (if d \<noteq> [] then
                   (case py_slice_to 1500 (dict_get_default d ''response'' (PStr [])) of
                      Inl e \<Rightarrow> Inl e
                    | Inr sliced \<Rightarrow>
                        (let channel = dict_get_default ad ''input_text'' (PStr ''channel'')
                         in Inr (AList.update ''metadata''
                                   (PDict [(''analysis_version'', PStr ''v2''), (''channel'', channel)])
                                   (AList.update ''content'' (memory_content_text se channel sliced)
                                      params2))))
                 else Inr params2)
            | _ \<Rightarrow> Inr params2)
         else Inr params2)"

text \<open>The arguments a registered handler is called with.\<close>

definition filtered_params :: "ToolSpec \<Rightarrow> pydict \<Rightarrow> pydict" where
  "filtered_params tool_spec params =
     filter (\<lambda>kv. fst kv \<in> set (signature_parameters tool_spec)) params"

text \<open>The \<^verbatim>\<open>try\<close> block of a registered tool.\<close>

definition tool_try :: "pyval \<Rightarrow> ToolSpec \<Rightarrow> pydict \<Rightarrow> exn + pyval" where
  "tool_try tool_name tool_spec params =
     (case handler tool_spec (filtered_params tool_spec params) of
        Inl e \<Rightarrow> Inl e
      | Inr (PDict r) \<Rightarrow> Inr (PDict (dict_merge [(''tool'', tool_name)] r))
      | Inr v \<Rightarrow> Inl (PyError ''TypeError'' (quoted (type_name v) @ '' object is not a mapping'')))"

text \<open>The placeholder table for tools that are not registered, read with \<^verbatim>\<open>.get\<close>.\<close>

fun mock_tool_response :: "pyval \<Rightarrow> pydict \<Rightarrow> exn + pyval" where
  "mock_tool_response (PStr name) ad =
     (if name = ''web_fetch'' then
        Inr (PDict [(''tool'', PStr ''web_fetch''), (''content'', PStr ''Fetched page content...''),
                    (''url'', dict_get ad ''url'')])
      else if name = ''telegram_publish'' then
        Inr (PDict [(''tool'', PStr ''telegram_publish''), (''success'', PBool True),
                    (''message_id'', PInt 12345), (''channel'', dict_get ad ''channel'')])
      else Inr (PDict [(''tool'', PStr name), (''result'', PStr ''mock'')]))"
| "mock_tool_response (PList xs) ad =
     Inl (PyError ''TypeError'' (''unhashable type: '' @ quoted ''list''))"
| "mock_tool_response (PDict d) ad =
     Inl (PyError ''TypeError'' (''unhashable type: '' @ quoted ''dict''))"
| "mock_tool_response v ad = Inr (PDict [(''tool'', v), (''result'', PStr ''mock'')])"

definition handle_tool_call :: "'tm StepExecutor \<Rightarrow> Step \<Rightarrow> ExecutionContext \<Rightarrow> exn + pyval" where
  "handle_tool_call se step ctx =
     (case tool_params se step ctx of
        Inl e \<Rightarrow> Inl e
      | Inr params \<Rightarrow>
          (case tool_registry_get se (tool_name_of step) of
             Some tool_spec \<Rightarrow>
               (case tool_try (tool_name_of step) tool_spec params of
                  Inr r \<Rightarrow> Inr r
                | Inl e \<Rightarrow>
                    (if is_Exception e
                     then Inr (PDict [(''tool'', tool_name_of step),
                                      (''error'', PStr (exn_str se e))])
                     else Inl e))
           | None \<Rightarrow> mock_tool_response (tool_name_of step) (action_data step)))"

subsection \<open>\<^verbatim>\<open>_handle_approval\<close>\<close>

definition approval_message :: "Step \<Rightarrow> pyval" where
  "approval_message step =
     dict_get_default (action_data step) ''message'' (PStr ''Approval required'')"

text \<open>
  The draft referenced by \<^verbatim>\<open>draft_step_id\<close>. A stored result that is truthy and not
  a dictionary has no \<^verbatim>\<open>get\<close>: the lookup raises before the task manager is called.
\<close>

definition approval_draft_content :: "Step \<Rightarrow> ExecutionContext \<Rightarrow> exn + pyval" where
  "approval_draft_content step ctx =
     (let draft_step_id = dict_get (action_data step) ''draft_step_id'' in
      if truthy draft_step_id then
        (let draft_result = get_step_result ctx draft_step_id in
         if truthy draft_result then
           (case draft_result of
              PDict d \<Rightarrow> Inr (dict_get d ''response'')
            | v \<Rightarrow> Inl (PyError ''AttributeError''
                          (quoted (type_name v) @ '' object has no attribute '' @ quoted ''get'')))
         else Inr PNone)
      else Inr PNone)"

definition approval_payload :: "Step \<Rightarrow> pyval \<Rightarrow> pydict" where
  "approval_payload step draft_content =
     [(''step_id'', PStr (step_id step)), (''message'', approval_message step),
      (''draft_content'', draft_content)]"

definition handle_approval ::
  "'tm StepExecutor \<Rightarrow> Step \<Rightarrow> ExecutionContext \<Rightarrow> 'tm \<Rightarrow> (exn + pyval) \<times> 'tm" where
  "handle_approval se step ctx tm =
     (case approval_draft_content step ctx of
        Inl e \<Rightarrow> (Inl e, tm)
      | Inr draft_content \<Rightarrow>
          (case task_manager_pause se tm (task_id ctx) PauseReason_APPROVAL
                  (approval_payload step draft_content) of
             (Some e, tm') \<Rightarrow> (Inl e, tm')
           | (None, tm') \<Rightarrow>
               (Inl (ApprovalRequired (approval_message step) (step_id step) draft_content), tm')))"

subsection \<open>\<^verbatim>\<open>_handle_condition\<close> and \<^verbatim>\<open>_handle_aggregate\<close>\<close>

definition handle_condition :: "Step \<Rightarrow> ExecutionContext \<Rightarrow> exn + pyval" where
  "handle_condition step ctx =
     (let condition = dict_get_default (action_data step) ''condition'' (PStr ''true'');
          res = True
      in Inr (PDict [(''condition'', condition), (''result'', PBool res),
                     (''branch'', PStr (if res then ''true'' else ''false''))]))"

definition aggregate_results :: "ExecutionContext \<Rightarrow> pyval list \<Rightarrow> pydict" where
  "aggregate_results ctx step_ids =
     foldl (\<lambda>aggregated sid.
              (let r = get_step_result ctx sid in
               if truthy r then (case sid of PStr s \<Rightarrow> AList.update s r aggregated | _ \<Rightarrow> aggregated)
               else aggregated))
           [] step_ids"

definition handle_aggregate :: "Step \<Rightarrow> ExecutionContext \<Rightarrow> exn + pyval" where
  "handle_aggregate step ctx =
     (case py_iter (dict_get_default (action_data step) ''step_ids'' (PList [])) of
        Inl e \<Rightarrow> Inl e
      | Inr step_ids \<Rightarrow>
          (let aggregated = aggregate_results ctx step_ids
           in Inr (PDict [(''aggregated'', PDict aggregated),
                          (''count'', PInt (int (length aggregated)))])))"

section \<open>\<^verbatim>\<open>StepExecutor.execute\<close>\<close>

text \<open>The handler table built by \<^verbatim>\<open>__init__\<close>, read with \<^verbatim>\<open>.get\<close>.\<close>

fun handlers ::
  "'tm StepExecutor \<Rightarrow> StepAction \<Rightarrow>
     (Step \<Rightarrow> ExecutionContext \<Rightarrow> 'tm \<Rightarrow> (exn + pyval) \<times> 'tm) option" where
  "handlers se LLM_CALL = Some (\<lambda>step ctx tm. (handle_llm_call se step ctx, tm))"
| "handlers se TOOL_CALL = Some (\<lambda>step ctx tm. (handle_tool_call se step ctx, tm))"
| "handlers se APPROVAL = Some (handle_approval se)"
| "handlers se CONDITION = Some (\<lambda>step ctx tm. (handle_condition step ctx, tm))"
| "handlers se AGGREGATE = Some (\<lambda>step ctx tm. (handle_aggregate step ctx, tm))"
| "handlers se (OTHER_ACTION a) = None"

fun action_str :: "StepAction \<Rightarrow> string" where
  "action_str LLM_CALL = ''StepAction.LLM_CALL''"
| "action_str TOOL_CALL = ''StepAction.TOOL_CALL''"
| "action_str APPROVAL = ''StepAction.APPROVAL''"
| "action_str CONDITION = ''StepAction.CONDITION''"
| "action_str AGGREGATE = ''StepAction.AGGREGATE''"
| "action_str (OTHER_ACTION a) = a"

text \<open>
  \<open>execute se t_start t_end step ctx tm\<close>: the outcome (\<open>Inr\<close> the returned result,
  \<open>Inl\<close> the exception that leaves \<^verbatim>\<open>execute\<close>), and the step, the context and the
  task manager as the call leaves them. \<open>t_start\<close> and \<open>t_end\<close> are the two readings of
  the clock. The two \<^verbatim>\<open>except\<close> clauses catch \<^verbatim>\<open>ApprovalRequired\<close> and \<^verbatim>\<open>Exception\<close>;
  any other exception passes through them, and the step stays as it was marked.
\<close>

definition mark_running :: "nat \<Rightarrow> Step \<Rightarrow> Step" where
  "mark_running t_start step = step\<lparr>status := RUNNING, started_at := Some t_start\<rparr>"

definition execute ::
  "'tm StepExecutor \<Rightarrow> nat \<Rightarrow> nat \<Rightarrow> Step \<Rightarrow> ExecutionContext \<Rightarrow> 'tm \<Rightarrow>
     (exn + pyval) \<times> Step \<times> ExecutionContext \<times> 'tm" where
  "execute se t_start t_end step ctx tm =
     (case handlers se (action step) of
        None \<Rightarrow>
          (Inl (PyError ''ValueError'' (''Unknown step action: '' @ action_str (action step))),
           step, ctx, tm)
      | Some handler_fn \<Rightarrow>
          (let step1 = mark_running t_start step in
           case handler_fn step1 ctx tm of
             (Inr res, tm') \<Rightarrow>
               (Inr res,
                step1\<lparr>status := COMPLETED, result := res, completed_at := Some t_end\<rparr>,
                (add_step_result ctx (step_id step1) res)\<lparr>steps_executed := steps_executed ctx + 1\<rparr>,
                tm')
           | (Inl (ApprovalRequired m s d), tm') \<Rightarrow>
               (Inl (ApprovalRequired m s d),
                step1\<lparr>status := PENDING, started_at := None\<rparr>, ctx, tm')
           | (Inl (PyError c m), tm') \<Rightarrow>
               (Inl (PyError c m),
                step1\<lparr>status := FAILED, error := Some (exn_str se (PyError c m)),
                      completed_at := Some t_end\<rparr>,
                ctx, tm')
           | (Inl (PyBaseError c m), tm') \<Rightarrow>
               (Inl (PyBaseError c m), step1, ctx, tm')))"

section \<open>The task store and its writers\<close>

text \<open>
  The \<^verbatim>\<open>tasks\<close> table with the columns that \<^verbatim>\<open>app/smm/agent.py\<close> and the task
  manager write, and the append-only \<^verbatim>\<open>task_events\<close> log. Times are seconds.
\<close>

datatype TaskStatus = Task_pending | Task_running | Task_paused | Task_completed | Task_failed

datatype EventType =
  Event_created | Event_started | Event_paused | Event_resumed | Event_succeeded | Event_failed

record TaskRow =
  tasks_id :: int
  tasks_status :: TaskStatus
  tasks_result :: pyval
  tasks_error :: "string option"
  tasks_locked_by :: "string option"
  tasks_locked_at :: "nat option"
  tasks_lease_expires_at :: "nat option"
  tasks_started_at :: "nat option"
  tasks_updated_at :: "nat option"

record TaskEvent =
  event_task_id :: int
  event_type :: EventType
  event_data :: pyval

record Database =
  tasks :: "TaskRow list"
  task_events :: "TaskEvent list"

definition task_status_of :: "Database \<Rightarrow> int \<Rightarrow> TaskStatus option" where
  "task_status_of db tid = map_option tasks_status (find (\<lambda>r. tasks_id r = tid) (tasks db))"

definition update_task_rows :: "int \<Rightarrow> (TaskRow \<Rightarrow> TaskRow) \<Rightarrow> Database \<Rightarrow> Database" where
  "update_task_rows tid f db =
     db\<lparr>tasks := map (\<lambda>r. if tasks_id r = tid then f r else r) (tasks db)\<rparr>"

text \<open>
  The statement that \<^verbatim>\<open>SMMAgent.generate_post\<close>, \<^verbatim>\<open>_analyze_channel_via_executor\<close> and
  \<^verbatim>\<open>generate_post_with_research\<close> send to the store themselves, with
  \<^verbatim>\<open>self.db.execute\<close>, right after \<^verbatim>\<open>enqueue\<close>:
  \<^verbatim>\<open>UPDATE tasks SET status = 'running', locked_by = ?, locked_at = ?,
  lease_expires_at = ?, started_at = ?, updated_at = ? WHERE id = ?\<close>
  with the values \<^verbatim>\<open>"smm_agent"\<close>, \<^verbatim>\<open>now\<close>, \<^verbatim>\<open>now + 300 s\<close>, \<^verbatim>\<open>now\<close>, \<^verbatim>\<open>now\<close>.
\<close>

definition smm_agent_update_task_running :: "nat \<Rightarrow> int \<Rightarrow> Database \<Rightarrow> Database" where
  "smm_agent_update_task_running now tid db =
     update_task_rows tid
       (\<lambda>r. r\<lparr>tasks_status := Task_running, tasks_locked_by := Some ''smm_agent'',
               tasks_locked_at := Some now, tasks_lease_expires_at := Some (now + 300),
               tasks_started_at := Some now, tasks_updated_at := Some now\<rparr>)
       db"

text \<open>
  Modelled from the spec: the \<^verbatim>\<open>TaskManager\<close> class is defined in \<^verbatim>\<open>app.kernel\<close>,
  outside the modules modelled here. \<open>pause\<close>: "running\<rightarrow>paused, appends TaskEvent(paused). Fails
  (OrderingViolation) if not currently running." \<open>succeed\<close>: "running\<rightarrow>completed,
  appends TaskEvent(succeeded). Fails if not running." \<open>fail\<close>: "running or paused
  \<rightarrow> failed, appends TaskEvent(failed)." The lock fields are "non-null iff running",
  the result is set on completed and the error on failed.
\<close>

definition ordering_violation :: "string \<Rightarrow> exn" where
  "ordering_violation what = PyError ''OrderingViolation'' (''task is not '' @ what)"

definition release_lock :: "TaskRow \<Rightarrow> TaskRow" where
  "release_lock r =
     r\<lparr>tasks_locked_by := None, tasks_locked_at := None, tasks_lease_expires_at := None\<rparr>"

definition append_event :: "int \<Rightarrow> EventType \<Rightarrow> pyval \<Rightarrow> Database \<Rightarrow> Database" where
  "append_event tid ty data db =
     db\<lparr>task_events :=
          task_events db @ [\<lparr>event_task_id = tid, event_type = ty, event_data = data\<rparr>]\<rparr>"

definition tm_pause :: "Database \<Rightarrow> int \<Rightarrow> PauseReason \<Rightarrow> pydict \<Rightarrow> exn option \<times> Database" where
  "tm_pause db tid reason data =
     (if task_status_of db tid = Some Task_running then
        (None,
         append_event tid Event_paused (PDict data)
           (update_task_rows tid (\<lambda>r. (release_lock r)\<lparr>tasks_status := Task_paused\<rparr>) db))
      else (Some (ordering_violation ''running''), db))"

definition tm_succeed :: "Database \<Rightarrow> int \<Rightarrow> pyval \<Rightarrow> exn option \<times> Database" where
  "tm_succeed db tid res =
     (if task_status_of db tid = Some Task_running then
        (None,
         append_event tid Event_succeeded res
           (update_task_rows tid
              (\<lambda>r. (release_lock r)\<lparr>tasks_status := Task_completed, tasks_result := res\<rparr>) db))
      else (Some (ordering_violation ''running''), db))"

definition tm_fail :: "Database \<Rightarrow> int \<Rightarrow> string \<Rightarrow> exn option \<times> Database" where
  "tm_fail db tid err =
     (if task_status_of db tid = Some Task_running \<or> task_status_of db tid = Some Task_paused then
        (None,
         append_event tid Event_failed (PStr err)
           (update_task_rows tid
              (\<lambda>r. (release_lock r)\<lparr>tasks_status := Task_failed, tasks_error := Some err\<rparr>) db))
      else (Some (ordering_violation ''running or paused''), db))"

section \<open>A concrete executor\<close>

text \<open>
  One instance of the collaborators, used to run the executor on concrete steps: the
  task manager above, a completion provider that is down, and a registry with the tools
  \<^verbatim>\<open>parse_channel(channel, limit)\<close>, which raises on an empty channel name, and
  \<^verbatim>\<open>shutdown()\<close>, which calls \<^verbatim>\<open>sys.exit(1)\<close>. A second instance has a provider that is
  interrupted from the keyboard.
\<close>

definition demo_parse_channel :: "pydict \<Rightarrow> exn + pyval" where
  "demo_parse_channel kwargs =
     (case map_of kwargs ''channel'' of
        None \<Rightarrow> Inl (PyError ''TypeError'' ''missing required argument'')
      | Some ch \<Rightarrow>
          (if truthy ch then Inr (PDict [(''channel'', ch), (''posts'', PList [])])
           else Inl (PyError ''ValueError'' ''empty channel'')))"

definition demo_shutdown :: "pydict \<Rightarrow> exn + pyval" where
  "demo_shutdown kwargs = Inl (PyBaseError ''SystemExit'' ''1'')"

definition demo_registry :: "pyval \<Rightarrow> ToolSpec option" where
  "demo_registry name =
     (if name = PStr ''parse_channel''
      then Some \<lparr>handler = demo_parse_channel, signature_parameters = [''channel'', ''limit'']\<rparr>
      else if name = PStr ''shutdown''
      then Some \<lparr>handler = demo_shutdown, signature_parameters = []\<rparr>
      else None)"

definition demo_py_str :: "pyval \<Rightarrow> string" where
  "demo_py_str v = (case v of PStr s \<Rightarrow> s | _ \<Rightarrow> type_name v)"

definition demo_executor :: "Database StepExecutor" where
  "demo_executor =
     \<lparr>task_manager_pause = tm_pause,
      llm_service = Some (\<lambda>sys_prompt user_prompt uid tid.
                            Inl (PyError ''ConnectionError'' ''provider unavailable'')),
      tool_registry_get = demo_registry,
      py_str = demo_py_str,
      build_smm_prompt = (\<lambda>purpose input prev smm ad. Inr (PStr ''system'', input)),
      get_system_prompt = (\<lambda>purpose. PStr ''system''),
      prompt_format = (\<lambda>template input prev ad. Inr template),
      build_prompt = (\<lambda>purpose input prev ad. Inr input),
      markdown_to_html = (\<lambda>text. Inr text),
      apply_style_postprocess = (\<lambda>text smm. Inr text),
      mock_llm_response = (\<lambda>purpose input. Inr (PStr ''mock'')),
      memory_content_text = (\<lambda>channel text. text)\<rparr>"

definition interrupted_executor :: "Database StepExecutor" where
  "interrupted_executor =
     demo_executor\<lparr>llm_service :=
        Some (\<lambda>sys_prompt user_prompt uid tid. Inl (PyBaseError ''KeyboardInterrupt'' []))\<rparr>"

definition demo_step :: "string \<Rightarrow> StepAction \<Rightarrow> pydict \<Rightarrow> Step" where
  "demo_step sid act ad =
     \<lparr>step_id = sid, action = act, action_data = ad, depends_on = [], status = PENDING,
      result = PNone, error = None, started_at = None, completed_at = None\<rparr>"

definition demo_context :: ExecutionContext where
  "demo_context =
     \<lparr>task_id = 7, user_id = 42, input_text = ''topic'',
      step_results = [(''draft'', PDict [(''purpose'', PStr ''generate_draft''),
                                         (''response'', PStr ''Draft text'')]),
                      (''analysis'', PDict [(''purpose'', PStr ''smm_analyze_style''),
                                            (''response'', PNone), (''model'', PStr ''m''),
                                            (''tokens_used'', PInt 0)])],
      steps_executed = 1\<rparr>"

definition demo_task :: "TaskStatus \<Rightarrow> TaskRow" where
  "demo_task st =
     \<lparr>tasks_id = 7, tasks_status = st, tasks_result = PNone, tasks_error = None,
      tasks_locked_by = None, tasks_locked_at = None, tasks_lease_expires_at = None,
      tasks_started_at = None, tasks_updated_at = None\<rparr>"

definition demo_db :: "TaskStatus \<Rightarrow> Database" where
  "demo_db st = \<lparr>tasks = [demo_task st], task_events = []\<rparr>"

section \<open>Concrete steps\<close>

definition approve_step :: Step where
  "approve_step =
     demo_step ''approve'' APPROVAL
       [(''message'', PStr ''Publish?''), (''draft_step_id'', PStr ''draft'')]"

definition approve_payload :: pydict where
  "approve_payload =
     [(''step_id'', PStr ''approve''), (''message'', PStr ''Publish?''),
      (''draft_content'', PStr ''Draft text'')]"

definition wait_step :: Step where
  "wait_step = demo_step ''s9'' (OTHER_ACTION ''wait'') []"

definition condition_false_step :: Step where
  "condition_false_step = demo_step ''check'' CONDITION [(''condition'', PStr ''false'')]"

definition aggregate_bad_step :: Step where
  "aggregate_bad_step = demo_step ''collect'' AGGREGATE [(''step_ids'', PInt 5)]"

definition llm_step :: Step where
  "llm_step = demo_step ''write'' LLM_CALL [(''purpose'', PStr ''research'')]"

definition parse_empty_step :: Step where
  "parse_empty_step =
     demo_step ''parse'' TOOL_CALL
       [(''tool'', PStr ''parse_channel''), (''channel'', PStr []), (''depth'', PInt 3)]"

definition parse_news_step :: Step where
  "parse_news_step =
     demo_step ''parse'' TOOL_CALL
       [(''tool'', PStr ''parse_channel''), (''channel'', PStr ''@news''), (''depth'', PInt 3)]"

definition shutdown_step :: Step where
  "shutdown_step = demo_step ''stop'' TOOL_CALL [(''tool'', PStr ''shutdown'')]"

definition memory_store_step :: Step where
  "memory_store_step =
     demo_step ''remember'' TOOL_CALL
       [(''tool'', PStr ''memory_store''), (''source_step_id'', PStr ''analysis'')]"

text \<open>
  The value a CONDITION step is said to report, for the two literal expressions: the
  default expression \<^verbatim>\<open>'true'\<close> holds and \<^verbatim>\<open>'false'\<close> does not.
\<close>

definition literal_condition_value :: "pyval \<Rightarrow> bool option" where
  "literal_condition_value c =
     (if c = PStr ''true'' then Some True else if c = PStr ''false'' then Some False else None)"

section \<open>Auxiliary facts\<close>

lemmas demo_defs =
  demo_step_def demo_context_def demo_db_def demo_task_def demo_executor_def
  demo_registry_def demo_parse_channel_def demo_py_str_def demo_shutdown_def
  interrupted_executor_def

lemmas tm_defs =
  tm_pause_def tm_succeed_def tm_fail_def task_status_of_def update_task_rows_def
  append_event_def release_lock_def ordering_violation_def

lemmas dict_defs = dict_get_def dict_get_default_def dict_merge_def py_or_def quoted_def

lemmas approval_defs =
  handle_approval_def approval_draft_content_def approval_payload_def approval_message_def

lemma mark_running_fields [simp]:
  "action_data (mark_running t step) = action_data step"
  "depends_on (mark_running t step) = depends_on step"
  "step_id (mark_running t step) = step_id step"
  "action (mark_running t step) = action step"
  by (simp_all add: mark_running_def)

lemma approval_on_running [simp]:
  "approval_draft_content (mark_running t step) ctx = approval_draft_content step ctx"
  "approval_message (mark_running t step) = approval_message step"
  "approval_payload (mark_running t step) d = approval_payload step d"
  by (simp_all add: approval_draft_content_def approval_message_def approval_payload_def)

lemma handle_approval_never_returns: "fst (handle_approval se step ctx tm) \<noteq> Inr r"
  by (simp add: handle_approval_def split: sum.splits prod.splits option.splits)

lemma execute_Inr_iff:
  "handlers se (action step) = Some h \<Longrightarrow>
   fst (execute se t0 t1 step ctx tm) = Inr r \<longleftrightarrow> fst (h (mark_running t0 step) ctx tm) = Inr r"
  by (auto simp add: execute_def Let_def split: prod.splits sum.splits exn.splits)

lemmas step_defs =
  approve_step_def approve_payload_def wait_step_def condition_false_step_def
  aggregate_bad_step_def llm_step_def parse_empty_step_def parse_news_step_def
  memory_store_step_def shutdown_step_def

lemma llm_on_running [simp]:
  "llm_prompts se (mark_running t step) ctx = llm_prompts se step ctx"
  "llm_purpose (mark_running t step) = llm_purpose step"
  "llm_input_text (mark_running t step) ctx = llm_input_text step ctx"
  "llm_result se (mark_running t step) resp = llm_result se step resp"
  by (simp_all add: llm_prompts_def llm_purpose_def llm_result_def llm_input_text_def
        prev_results_def)

lemma llm_try_on_running [simp]:
  "llm_try se complete (mark_running t step) ctx = llm_try se complete step ctx"
  by (simp add: llm_try_def split: sum.splits prod.splits)

lemma tool_on_running [simp]:
  "tool_params se (mark_running t step) ctx = tool_params se step ctx"
  "tool_name_of (mark_running t step) = tool_name_of step"
  by (simp_all add: tool_params_def tool_name_of_def)

lemma handle_on_running [simp]:
  "handle_llm_call se (mark_running t step) ctx = handle_llm_call se step ctx"
  "handle_tool_call se (mark_running t step) ctx = handle_tool_call se step ctx"
  by (simp_all add: handle_llm_call_def handle_tool_call_def split: option.splits sum.splits)

lemma execute_completed:
  assumes "handlers se (action step) = Some h"
      and "h (mark_running t_start step) ctx tm = (Inr r, tm')"
  shows "execute se t_start t_end step ctx tm =
          (Inr r,
           step\<lparr>status := COMPLETED, started_at := Some t_start, result := r,
                 completed_at := Some t_end\<rparr>,
           ctx\<lparr>step_results := AList.update (step_id step) r (step_results ctx),
                steps_executed := steps_executed ctx + 1\<rparr>,
           tm')"
  using assms by (simp add: execute_def mark_running_def add_step_result_def)

lemma execute_base_error:
  assumes "handlers se (action step) = Some h"
      and "h (mark_running t_start step) ctx tm = (Inl (PyBaseError c m), tm')"
  shows "execute se t_start t_end step ctx tm =
          (Inl (PyBaseError c m), step\<lparr>status := RUNNING, started_at := Some t_start\<rparr>,
           ctx, tm')"
  using assms by (simp add: execute_def mark_running_def)

lemma execute_fst:
  "handlers se (action step) = Some h \<Longrightarrow>
   fst (execute se t_start t_end step ctx tm) = fst (h (mark_running t_start step) ctx tm)"
  by (auto simp add: execute_def Let_def split: prod.splits sum.splits exn.splits)

lemma filter_update_dropped:
  "\<forall>v'. \<not> P (k, v') \<Longrightarrow> filter P (AList.update k v xs) = filter P xs"
  by (induction xs) auto

lemma find_map_update:
  "(\<And>r. tasks_id (f r) = tasks_id r) \<Longrightarrow>
   find (\<lambda>r. tasks_id r = tid) (map (\<lambda>r. if tasks_id r = tid then f r else r) rows) =
     map_option f (find (\<lambda>r. tasks_id r = tid) rows)"
  by (induction rows) auto

lemma other_rows_unchanged:
  "(\<And>r. tasks_id (f r) = tasks_id r) \<Longrightarrow>
   filter (\<lambda>r. tasks_id r \<noteq> tid) (map (\<lambda>r. if tasks_id r = tid then f r else r) rows) =
     filter (\<lambda>r. tasks_id r \<noteq> tid) rows"
  by (induction rows) auto

section \<open>The dispatch protocol of \<^verbatim>\<open>execute\<close>\<close>

text \<open>
  C10. A step whose action is not one of the five kinds of the handler table makes
  \<^verbatim>\<open>execute\<close> raise \<^verbatim>\<open>ValueError\<close> before it touches anything: the step (status,
  started_at, result, error), the context (step results, steps-executed counter) and the
  task manager are returned exactly as they were given; the step is never marked running.
\<close>

theorem unknown_action_raises_unchanged:
  assumes "action step \<notin> {LLM_CALL, TOOL_CALL, APPROVAL, CONDITION, AGGREGATE}"
  shows "execute se t_start t_end step ctx tm =
           (Inl (PyError ''ValueError'' (''Unknown step action: '' @ action_str (action step))),
            step, ctx, tm)"
  using assms by (cases "action step") (simp_all add: execute_def)

theorem unknown_action_raises_unchanged_witness:
  "action wait_step \<notin> {LLM_CALL, TOOL_CALL, APPROVAL, CONDITION, AGGREGATE} \<and>
   execute demo_executor 100 101 wait_step demo_context (demo_db Task_running) =
     (Inl (PyError ''ValueError'' ''Unknown step action: wait''),
      wait_step, demo_context, demo_db Task_running)"
proof -
  have h: "action wait_step \<notin> {LLM_CALL, TOOL_CALL, APPROVAL, CONDITION, AGGREGATE}"
    by (simp add: wait_step_def demo_step_def)
  show ?thesis
    using h unknown_action_raises_unchanged
              [OF h, of demo_executor 100 101 demo_context "demo_db Task_running"]
    by (simp add: wait_step_def demo_step_def)
qed

text \<open>
  C2. Whenever the handler selected for a step signals an approval pause, \<^verbatim>\<open>execute\<close>
  leaves the step with status pending and \<open>started_at\<close> cleared, every other field of the
  step (result, error, completed_at) as it was before the call, the context unchanged (no
  result recorded, counter not incremented), and the same signal propagates to the caller.
\<close>

theorem approval_pause_resets_step:
  assumes "handlers se (action step) = Some h"
      and "h (mark_running t_start step) ctx tm = (Inl (ApprovalRequired m s d), tm')"
  shows "execute se t_start t_end step ctx tm =
           (Inl (ApprovalRequired m s d), step\<lparr>status := PENDING, started_at := None\<rparr>, ctx, tm')"
  using assms by (simp add: execute_def mark_running_def)

theorem approval_pause_resets_step_witness:
  "handlers demo_executor (action approve_step) = Some (handle_approval demo_executor) \<and>
   handle_approval demo_executor (mark_running 100 approve_step) demo_context (demo_db Task_running) =
     (Inl (ApprovalRequired (PStr ''Publish?'') ''approve'' (PStr ''Draft text'')),
      snd (tm_pause (demo_db Task_running) 7 PauseReason_APPROVAL approve_payload)) \<and>
   execute demo_executor 100 101 approve_step demo_context (demo_db Task_running) =
     (Inl (ApprovalRequired (PStr ''Publish?'') ''approve'' (PStr ''Draft text'')),
      approve_step\<lparr>status := PENDING, started_at := None\<rparr>, demo_context,
      snd (tm_pause (demo_db Task_running) 7 PauseReason_APPROVAL approve_payload))"
proof -
  have h1: "handlers demo_executor (action approve_step) = Some (handle_approval demo_executor)"
    by (simp add: approve_step_def demo_step_def)
  have h2: "handle_approval demo_executor (mark_running 100 approve_step) demo_context
              (demo_db Task_running) =
     (Inl (ApprovalRequired (PStr ''Publish?'') ''approve'' (PStr ''Draft text'')),
      snd (tm_pause (demo_db Task_running) 7 PauseReason_APPROVAL approve_payload))"
    by (simp add: approve_step_def approve_payload_def demo_defs tm_defs approval_defs dict_defs
          mark_running_def)
  show ?thesis
    using h1 h2 approval_pause_resets_step [OF h1 h2, of 101] by simp
qed

text \<open>
  C7, as stated, does not hold for every exception: \<^verbatim>\<open>execute\<close> catches
  \<^verbatim>\<open>ApprovalRequired\<close> and \<^verbatim>\<open>Exception\<close> only. When the provider of an LLM_CALL step is
  interrupted from the keyboard, \<^verbatim>\<open>KeyboardInterrupt\<close> escapes the handler and
  \<^verbatim>\<open>execute\<close>, and the step is not marked failed: it stays running, with no error and no
  completion time.
\<close>

theorem interrupted_step_stays_running:
  "handle_llm_call interrupted_executor (mark_running 100 llm_step) demo_context =
     Inl (PyBaseError ''KeyboardInterrupt'' []) \<and>
   execute interrupted_executor 100 101 llm_step demo_context (demo_db Task_running) =
     (Inl (PyBaseError ''KeyboardInterrupt'' []),
      llm_step\<lparr>status := RUNNING, started_at := Some 100\<rparr>,
      demo_context, demo_db Task_running) \<and>
   error (llm_step\<lparr>status := RUNNING, started_at := Some 100\<rparr>) = None \<and>
   completed_at (llm_step\<lparr>status := RUNNING, started_at := Some 100\<rparr>) = None"
  by (simp add: step_defs demo_defs execute_def mark_running_def handle_llm_call_def llm_try_def
        llm_prompts_def llm_purpose_def llm_input_text_def prev_results_def dict_defs)

text \<open>
  C7, amended. When the handler selected for a step returns a result, \<^verbatim>\<open>execute\<close>
  returns it, marks the step completed with that result and the completion time, stores
  the result in the context under the step's id and adds exactly one to the
  steps-executed counter. When the handler raises an instance of \<^verbatim>\<open>Exception\<close> other
  than the approval signal, \<^verbatim>\<open>execute\<close> marks the step failed with the exception's
  string and the completion time, leaves the context alone and raises the same exception
  again. When the handler raises an exception that is not an instance of \<^verbatim>\<open>Exception\<close>,
  that exception leaves \<^verbatim>\<open>execute\<close> as well, with the step still running and the
  context alone.
\<close>

theorem execute_records_outcome:
  assumes "handlers se (action step) = Some h"
      and "h (mark_running t_start step) ctx tm = (out, tm')"
  shows "(\<forall>r. out = Inr r \<longrightarrow>
            execute se t_start t_end step ctx tm =
              (Inr r,
               step\<lparr>status := COMPLETED, started_at := Some t_start, result := r,
                     completed_at := Some t_end\<rparr>,
               ctx\<lparr>step_results := AList.update (step_id step) r (step_results ctx),
                    steps_executed := steps_executed ctx + 1\<rparr>,
               tm')) \<and>
         (\<forall>c m. out = Inl (PyError c m) \<longrightarrow>
            execute se t_start t_end step ctx tm =
              (Inl (PyError c m),
               step\<lparr>status := FAILED, started_at := Some t_start, error := Some m,
                     completed_at := Some t_end\<rparr>,
               ctx, tm')) \<and>
         (\<forall>c m. out = Inl (PyBaseError c m) \<longrightarrow>
            execute se t_start t_end step ctx tm =
              (Inl (PyBaseError c m),
               step\<lparr>status := RUNNING, started_at := Some t_start\<rparr>, ctx, tm'))"
  using assms by (simp add: execute_def mark_running_def add_step_result_def)

theorem execute_records_outcome_witness:
  "handlers demo_executor (action condition_false_step) =
     Some (\<lambda>step ctx tm. (handle_condition step ctx, tm)) \<and>
   handle_condition (mark_running 100 condition_false_step) demo_context =
     Inr (PDict [(''condition'', PStr ''false''), (''result'', PBool True),
                 (''branch'', PStr ''true'')]) \<and>
   execute demo_executor 100 101 condition_false_step demo_context (demo_db Task_running) =
     (Inr (PDict [(''condition'', PStr ''false''), (''result'', PBool True),
                  (''branch'', PStr ''true'')]),
      condition_false_step\<lparr>status := COMPLETED, started_at := Some 100,
         result := PDict [(''condition'', PStr ''false''), (''result'', PBool True),
                          (''branch'', PStr ''true'')],
         completed_at := Some 101\<rparr>,
      demo_context\<lparr>step_results := step_results demo_context @
           [(''check'', PDict [(''condition'', PStr ''false''), (''result'', PBool True),
                               (''branch'', PStr ''true'')])],
         steps_executed := 2\<rparr>,
      demo_db Task_running) \<and>
   handlers demo_executor (action aggregate_bad_step) =
     Some (\<lambda>step ctx tm. (handle_aggregate step ctx, tm)) \<and>
   handle_aggregate (mark_running 100 aggregate_bad_step) demo_context =
     Inl (PyError ''TypeError'' (quoted ''int'' @ '' object is not iterable'')) \<and>
   execute demo_executor 100 101 aggregate_bad_step demo_context (demo_db Task_running) =
     (Inl (PyError ''TypeError'' (quoted ''int'' @ '' object is not iterable'')),
      aggregate_bad_step\<lparr>status := FAILED, started_at := Some 100,
         error := Some (quoted ''int'' @ '' object is not iterable''), completed_at := Some 101\<rparr>,
      demo_context, demo_db Task_running) \<and>
   handlers demo_executor (action shutdown_step) =
     Some (\<lambda>step ctx tm. (handle_tool_call demo_executor step ctx, tm)) \<and>
   handle_tool_call demo_executor (mark_running 100 shutdown_step) demo_context =
     Inl (PyBaseError ''SystemExit'' ''1'') \<and>
   execute demo_executor 100 101 shutdown_step demo_context (demo_db Task_running) =
     (Inl (PyBaseError ''SystemExit'' ''1''),
      shutdown_step\<lparr>status := RUNNING, started_at := Some 100\<rparr>,
      demo_context, demo_db Task_running)"
proof -
  let ?r = "PDict [(''condition'', PStr ''false''), (''result'', PBool True),
                   (''branch'', PStr ''true'')]"
  let ?e = "PyError ''TypeError'' (quoted ''int'' @ '' object is not iterable'')"
  let ?x = "PyBaseError ''SystemExit'' ''1''"
  have a1: "handlers demo_executor (action condition_false_step) =
              Some (\<lambda>step ctx tm. (handle_condition step ctx, tm))"
    by (simp add: condition_false_step_def demo_step_def)
  have a2: "(\<lambda>step ctx tm. (handle_condition step ctx, tm)) (mark_running 100 condition_false_step)
              demo_context (demo_db Task_running) = (Inr ?r, demo_db Task_running)"
    by (simp add: condition_false_step_def demo_step_def handle_condition_def dict_defs
          mark_running_def)
  have b1: "handlers demo_executor (action aggregate_bad_step) =
              Some (\<lambda>step ctx tm. (handle_aggregate step ctx, tm))"
    by (simp add: aggregate_bad_step_def demo_step_def)
  have b2: "(\<lambda>step ctx tm. (handle_aggregate step ctx, tm)) (mark_running 100 aggregate_bad_step)
              demo_context (demo_db Task_running) = (Inl ?e, demo_db Task_running)"
    by (simp add: aggregate_bad_step_def demo_step_def handle_aggregate_def dict_defs
          mark_running_def)
  have c1: "handlers demo_executor (action shutdown_step) =
              Some (\<lambda>step ctx tm. (handle_tool_call demo_executor step ctx, tm))"
    by (simp add: shutdown_step_def demo_step_def)
  have c2: "(\<lambda>step ctx tm. (handle_tool_call demo_executor step ctx, tm))
              (mark_running 100 shutdown_step) demo_context (demo_db Task_running) =
              (Inl ?x, demo_db Task_running)"
    by (simp add: shutdown_step_def demo_defs handle_tool_call_def tool_params_def tool_try_def
          tool_name_of_def filtered_params_def dict_defs)
  show ?thesis
    using a1 a2 b1 b2 c1 c2
      execute_records_outcome [OF a1 a2, of 101]
      execute_records_outcome [OF b1 b2, of 101]
      execute_records_outcome [OF c1 c2, of 101]
    by (simp add: condition_false_step_def aggregate_bad_step_def shutdown_step_def
          demo_step_def demo_context_def)
qed

text \<open>
  C3, as stated, does not hold: \<^verbatim>\<open>execute\<close> has no three-way result value. On an
  APPROVAL step of a running task the pause reaches the caller as the raised exception
  \<^verbatim>\<open>ApprovalRequired\<close> (\<open>Inl\<close>), not as a returned value.
\<close>

theorem execute_signals_pause_by_raising:
  "fst (execute demo_executor 100 101 approve_step demo_context (demo_db Task_running)) =
     Inl (ApprovalRequired (PStr ''Publish?'') ''approve'' (PStr ''Draft text''))"
  by (simp add: step_defs demo_defs tm_defs approval_defs dict_defs execute_def mark_running_def)

text \<open>
  C3, amended. What \<^verbatim>\<open>execute\<close> hands to its caller is the outcome of the handler the
  table selects for the step's action, run on the step marked running: it returns the
  result the handler returns, and the step is completed with that result; it raises the
  \<^verbatim>\<open>ApprovalRequired\<close> the handler raises, and the step is pending again with
  \<open>started_at\<close> cleared; it raises any other exception the handler raises, and the step is
  failed with that exception's string when it is an instance of \<^verbatim>\<open>Exception\<close> and
  still running otherwise. For an action outside the table it raises \<^verbatim>\<open>ValueError\<close> and
  leaves the step as it was.
\<close>

theorem execute_outcomes:
  "(case handlers se (action step) of
      None \<Rightarrow>
        fst (execute se t_start t_end step ctx tm) =
          Inl (PyError ''ValueError'' (''Unknown step action: '' @ action_str (action step))) \<and>
        fst (snd (execute se t_start t_end step ctx tm)) = step
    | Some h \<Rightarrow>
        fst (execute se t_start t_end step ctx tm) = fst (h (mark_running t_start step) ctx tm) \<and>
        (case fst (h (mark_running t_start step) ctx tm) of
           Inr r \<Rightarrow>
             status (fst (snd (execute se t_start t_end step ctx tm))) = COMPLETED \<and>
             result (fst (snd (execute se t_start t_end step ctx tm))) = r
         | Inl (ApprovalRequired m s d) \<Rightarrow>
             status (fst (snd (execute se t_start t_end step ctx tm))) = PENDING \<and>
             started_at (fst (snd (execute se t_start t_end step ctx tm))) = None
         | Inl (PyError c m) \<Rightarrow>
             status (fst (snd (execute se t_start t_end step ctx tm))) = FAILED \<and>
             error (fst (snd (execute se t_start t_end step ctx tm))) = Some m
         | Inl (PyBaseError c m) \<Rightarrow>
             status (fst (snd (execute se t_start t_end step ctx tm))) = RUNNING \<and>
             started_at (fst (snd (execute se t_start t_end step ctx tm))) = Some t_start))"
  by (auto simp add: execute_def mark_running_def Let_def
        split: option.splits sum.splits exn.splits prod.splits)

theorem execute_outcomes_witness:
  "handlers demo_executor (action approve_step) = Some (handle_approval demo_executor) \<and>
   fst (handle_approval demo_executor (mark_running 100 approve_step) demo_context
          (demo_db Task_running)) =
     Inl (ApprovalRequired (PStr ''Publish?'') ''approve'' (PStr ''Draft text'')) \<and>
   fst (execute demo_executor 100 101 approve_step demo_context (demo_db Task_running)) =
     Inl (ApprovalRequired (PStr ''Publish?'') ''approve'' (PStr ''Draft text'')) \<and>
   status (fst (snd (execute demo_executor 100 101 approve_step demo_context
                       (demo_db Task_running)))) = PENDING \<and>
   started_at (fst (snd (execute demo_executor 100 101 approve_step demo_context
                           (demo_db Task_running)))) = None"
proof -
  have h: "handlers demo_executor (action approve_step) = Some (handle_approval demo_executor)"
    by (simp add: approve_step_def demo_step_def)
  have e: "fst (handle_approval demo_executor (mark_running 100 approve_step) demo_context
                  (demo_db Task_running)) =
             Inl (ApprovalRequired (PStr ''Publish?'') ''approve'' (PStr ''Draft text''))"
    by (simp add: step_defs demo_defs tm_defs approval_defs dict_defs mark_running_def)
  show ?thesis
    using h e
      execute_outcomes [where se = demo_executor and step = approve_step and t_start = 100
                          and t_end = 101 and ctx = demo_context and tm = "demo_db Task_running"]
    by simp
qed

section \<open>Properties of the handlers\<close>

text \<open>
  C1, as stated, does not hold: the handler raises \<^verbatim>\<open>ApprovalRequired\<close> only after
  \<^verbatim>\<open>TaskManager.pause\<close> has returned. When the task manager refuses the pause (here the
  task is still pending, so \<open>pause\<close> fails with an ordering violation), that error leaves
  \<^verbatim>\<open>execute\<close> instead of the pause signal, and the step is marked failed.
\<close>

theorem approval_step_fails_when_pause_refused:
  "action approve_step = APPROVAL \<and>
   execute demo_executor 100 101 approve_step demo_context (demo_db Task_pending) =
     (Inl (PyError ''OrderingViolation'' ''task is not running''),
      approve_step\<lparr>status := FAILED, started_at := Some 100,
                    error := Some ''task is not running'', completed_at := Some 101\<rparr>,
      demo_context, demo_db Task_pending)"
  by (simp add: step_defs demo_defs tm_defs approval_defs dict_defs execute_def mark_running_def)

text \<open>
  C1, amended. For every APPROVAL step \<^verbatim>\<open>execute\<close> never returns a result. Once the
  draft is looked up, the handler calls \<^verbatim>\<open>TaskManager.pause\<close> for the context's task with
  the payload \<open>{step_id, message, draft_content}\<close>; if the call returns, \<^verbatim>\<open>execute\<close>
  raises \<^verbatim>\<open>ApprovalRequired\<close> with the message, the step id and the draft, and the step is
  pending again; if the call raises, that exception leaves \<^verbatim>\<open>execute\<close> and the step is
  failed (or still running, for an exception that is not an instance of
  \<^verbatim>\<open>Exception\<close>). The draft is the \<^verbatim>\<open>'response'\<close> entry of the result stored for
  \<^verbatim>\<open>draft_step_id\<close> when that result is a non-empty dictionary, and \<^verbatim>\<open>None\<close> when
  \<^verbatim>\<open>draft_step_id\<close> is absent or has no stored result.
\<close>

theorem approval_step_pauses_or_fails:
  assumes "action step = APPROVAL"
  shows "(\<forall>r. fst (execute se t_start t_end step ctx tm) \<noteq> Inr r) \<and>
         (\<forall>draft raised tm'.
            approval_draft_content step ctx = Inr draft \<longrightarrow>
            task_manager_pause se tm (task_id ctx) PauseReason_APPROVAL
              [(''step_id'', PStr (step_id step)), (''message'', approval_message step),
               (''draft_content'', draft)] = (raised, tm') \<longrightarrow>
            (raised = None \<longrightarrow>
               execute se t_start t_end step ctx tm =
                 (Inl (ApprovalRequired (approval_message step) (step_id step) draft),
                  step\<lparr>status := PENDING, started_at := None\<rparr>, ctx, tm')) \<and>
            (\<forall>c m. raised = Some (PyError c m) \<longrightarrow>
               execute se t_start t_end step ctx tm =
                 (Inl (PyError c m),
                  step\<lparr>status := FAILED, started_at := Some t_start, error := Some m,
                        completed_at := Some t_end\<rparr>,
                  ctx, tm')) \<and>
            (\<forall>c m. raised = Some (PyBaseError c m) \<longrightarrow>
               execute se t_start t_end step ctx tm =
                 (Inl (PyBaseError c m),
                  step\<lparr>status := RUNNING, started_at := Some t_start\<rparr>, ctx, tm'))) \<and>
         (\<forall>d r. dict_get (action_data step) ''draft_step_id'' = PStr d \<longrightarrow> d \<noteq> [] \<longrightarrow>
            map_of (step_results ctx) d = Some (PDict r) \<longrightarrow> r \<noteq> [] \<longrightarrow>
            approval_draft_content step ctx = Inr (dict_get r ''response'')) \<and>
         (\<forall>d. dict_get (action_data step) ''draft_step_id'' = PStr d \<longrightarrow>
            map_of (step_results ctx) d = None \<longrightarrow>
            approval_draft_content step ctx = Inr PNone) \<and>
         (dict_get (action_data step) ''draft_step_id'' = PNone \<longrightarrow>
            approval_draft_content step ctx = Inr PNone)"
proof (intro conjI allI impI)
  fix r
  show "fst (execute se t_start t_end step ctx tm) \<noteq> Inr r"
    using assms handle_approval_never_returns [of se "mark_running t_start step" ctx tm r]
    by (simp add: execute_Inr_iff)
next
  fix draft raised tm'
  assume d: "approval_draft_content step ctx = Inr draft"
     and p: "task_manager_pause se tm (task_id ctx) PauseReason_APPROVAL
              [(''step_id'', PStr (step_id step)), (''message'', approval_message step),
               (''draft_content'', draft)] = (raised, tm')"
  {
    assume "raised = None"
    with assms d p show "execute se t_start t_end step ctx tm =
                 (Inl (ApprovalRequired (approval_message step) (step_id step) draft),
                  step\<lparr>status := PENDING, started_at := None\<rparr>, ctx, tm')"
      by (simp add: execute_def handle_approval_def approval_payload_def mark_running_def
            approval_draft_content_def approval_message_def)
  }
  {
    fix c m
    assume "raised = Some (PyError c m)"
    with assms d p show "execute se t_start t_end step ctx tm =
                 (Inl (PyError c m),
                  step\<lparr>status := FAILED, started_at := Some t_start, error := Some m,
                        completed_at := Some t_end\<rparr>,
                  ctx, tm')"
      by (simp add: execute_def handle_approval_def approval_payload_def mark_running_def
            approval_draft_content_def approval_message_def)
  }
  {
    fix c m
    assume "raised = Some (PyBaseError c m)"
    with assms d p show "execute se t_start t_end step ctx tm =
                 (Inl (PyBaseError c m),
                  step\<lparr>status := RUNNING, started_at := Some t_start\<rparr>, ctx, tm')"
      by (simp add: execute_def handle_approval_def approval_payload_def mark_running_def
            approval_draft_content_def approval_message_def)
  }
next
  fix d r
  assume "dict_get (action_data step) ''draft_step_id'' = PStr d" "d \<noteq> []"
         "map_of (step_results ctx) d = Some (PDict r)" "r \<noteq> []"
  then show "approval_draft_content step ctx = Inr (dict_get r ''response'')"
    by (simp add: approval_draft_content_def dict_get_def dict_get_default_def)
next
  fix d
  assume "dict_get (action_data step) ''draft_step_id'' = PStr d"
         "map_of (step_results ctx) d = None"
  then show "approval_draft_content step ctx = Inr PNone"
    by (simp add: approval_draft_content_def dict_get_def dict_get_default_def)
next
  assume "dict_get (action_data step) ''draft_step_id'' = PNone"
  then show "approval_draft_content step ctx = Inr PNone"
    by (simp add: approval_draft_content_def)
qed

theorem approval_step_pauses_or_fails_witness:
  "action approve_step = APPROVAL \<and>
   approval_draft_content approve_step demo_context = Inr (PStr ''Draft text'') \<and>
   tm_pause (demo_db Task_running) 7 PauseReason_APPROVAL approve_payload =
     (None, append_event 7 Event_paused (PDict approve_payload) (demo_db Task_paused)) \<and>
   execute demo_executor 100 101 approve_step demo_context (demo_db Task_running) =
     (Inl (ApprovalRequired (PStr ''Publish?'') ''approve'' (PStr ''Draft text'')),
      approve_step\<lparr>status := PENDING, started_at := None\<rparr>, demo_context,
      append_event 7 Event_paused (PDict approve_payload) (demo_db Task_paused)) \<and>
   tm_pause (demo_db Task_pending) 7 PauseReason_APPROVAL approve_payload =
     (Some (PyError ''OrderingViolation'' ''task is not running''), demo_db Task_pending) \<and>
   execute demo_executor 100 101 approve_step demo_context (demo_db Task_pending) =
     (Inl (PyError ''OrderingViolation'' ''task is not running''),
      approve_step\<lparr>status := FAILED, started_at := Some 100,
                    error := Some ''task is not running'', completed_at := Some 101\<rparr>,
      demo_context, demo_db Task_pending)"
proof -
  let ?paused = "append_event 7 Event_paused (PDict approve_payload) (demo_db Task_paused)"
  have h: "action approve_step = APPROVAL"
    by (simp add: step_defs demo_step_def)
  have d: "approval_draft_content approve_step demo_context = Inr (PStr ''Draft text'')"
    by (simp add: step_defs demo_defs approval_defs dict_defs)
  have pl: "[(''step_id'', PStr (step_id approve_step)), (''message'', approval_message approve_step),
             (''draft_content'', PStr ''Draft text'')] = approve_payload"
    by (simp add: step_defs demo_defs approval_defs dict_defs)
  have p1: "tm_pause (demo_db Task_running) 7 PauseReason_APPROVAL approve_payload = (None, ?paused)"
    by (simp add: step_defs demo_defs tm_defs)
  have p2: "tm_pause (demo_db Task_pending) 7 PauseReason_APPROVAL approve_payload =
              (Some (PyError ''OrderingViolation'' ''task is not running''), demo_db Task_pending)"
    by (simp add: step_defs demo_defs tm_defs)
  have q1: "task_manager_pause demo_executor (demo_db Task_running) (task_id demo_context)
              PauseReason_APPROVAL
              [(''step_id'', PStr (step_id approve_step)), (''message'', approval_message approve_step),
               (''draft_content'', PStr ''Draft text'')] = (None, ?paused)"
    unfolding pl using p1 by (simp add: demo_executor_def demo_context_def)
  have q2: "task_manager_pause demo_executor (demo_db Task_pending) (task_id demo_context)
              PauseReason_APPROVAL
              [(''step_id'', PStr (step_id approve_step)), (''message'', approval_message approve_step),
               (''draft_content'', PStr ''Draft text'')] =
              (Some (PyError ''OrderingViolation'' ''task is not running''), demo_db Task_pending)"
    unfolding pl using p2 by (simp add: demo_executor_def demo_context_def)
  note T1 = approval_step_pauses_or_fails
              [OF h, of demo_executor 100 101 demo_context "demo_db Task_running",
               THEN conjunct2, THEN conjunct1, rule_format, OF d q1]
  note T2 = approval_step_pauses_or_fails
              [OF h, of demo_executor 100 101 demo_context "demo_db Task_pending",
               THEN conjunct2, THEN conjunct1, rule_format, OF d q2]
  have e1: "execute demo_executor 100 101 approve_step demo_context (demo_db Task_running) =
     (Inl (ApprovalRequired (PStr ''Publish?'') ''approve'' (PStr ''Draft text'')),
      approve_step\<lparr>status := PENDING, started_at := None\<rparr>, demo_context, ?paused)"
    using T1 [THEN conjunct1] by (simp add: step_defs demo_step_def approval_message_def dict_defs)
  have e2: "execute demo_executor 100 101 approve_step demo_context (demo_db Task_pending) =
     (Inl (PyError ''OrderingViolation'' ''task is not running''),
      approve_step\<lparr>status := FAILED, started_at := Some 100,
                    error := Some ''task is not running'', completed_at := Some 101\<rparr>,
      demo_context, demo_db Task_pending)"
    using T2 [THEN conjunct2, THEN conjunct1, rule_format, OF refl] by simp
  show ?thesis using h d p1 e1 p2 e2 by simp
qed

text \<open>
  C9, as stated, does not hold: the expression is not evaluated. A CONDITION step whose
  expression is the literal \<^verbatim>\<open>'false'\<close> reports result \<^verbatim>\<open>True\<close> and branch \<^verbatim>\<open>'true'\<close>.
\<close>

theorem condition_false_reports_true:
  "literal_condition_value (dict_get (action_data condition_false_step) ''condition'') =
     Some False \<and>
   fst (execute demo_executor 100 101 condition_false_step demo_context (demo_db Task_running)) =
     Inr (PDict [(''condition'', PStr ''false''), (''result'', PBool True),
                 (''branch'', PStr ''true'')])"
  by (simp add: condition_false_step_def demo_step_def dict_defs literal_condition_value_def
        execute_def handle_condition_def mark_running_def)

text \<open>
  C9, amended. For every CONDITION step \<^verbatim>\<open>execute\<close> returns a dictionary with exactly
  the keys \<open>condition\<close>, \<open>result\<close> and \<open>branch\<close>: \<open>condition\<close> is the expression taken from
  \<^verbatim>\<open>action_data\<close> (\<^verbatim>\<open>'true'\<close> when absent), \<open>result\<close> is \<^verbatim>\<open>True\<close> whatever the
  expression is, and \<open>branch\<close> is \<^verbatim>\<open>'true'\<close>; the step completes.
\<close>

theorem condition_step_always_true:
  assumes "action step = CONDITION"
  shows "fst (execute se t_start t_end step ctx tm) =
           Inr (PDict [(''condition'',
                          dict_get_default (action_data step) ''condition'' (PStr ''true'')),
                       (''result'', PBool True), (''branch'', PStr ''true'')]) \<and>
         status (fst (snd (execute se t_start t_end step ctx tm))) = COMPLETED"
  using assms by (simp add: execute_def handle_condition_def mark_running_def)

theorem condition_step_always_true_witness:
  "action condition_false_step = CONDITION \<and>
   fst (execute demo_executor 100 101 condition_false_step demo_context (demo_db Task_running)) =
     Inr (PDict [(''condition'', PStr ''false''), (''result'', PBool True),
                 (''branch'', PStr ''true'')]) \<and>
   status (fst (snd (execute demo_executor 100 101 condition_false_step demo_context
                       (demo_db Task_running)))) = COMPLETED"
proof -
  have h: "action condition_false_step = CONDITION"
    by (simp add: condition_false_step_def demo_step_def)
  show ?thesis
    using h condition_step_always_true
              [OF h, of demo_executor 100 101 demo_context "demo_db Task_running"]
    by (simp add: condition_false_step_def demo_step_def dict_defs)
qed

text \<open>
  C4, as stated, does not hold for every exception: both \<^verbatim>\<open>try\<close> blocks catch
  \<^verbatim>\<open>Exception\<close> only. The registered tool \<^verbatim>\<open>shutdown\<close> raises \<^verbatim>\<open>SystemExit\<close>; the handler
  does not catch it, \<^verbatim>\<open>execute\<close> raises it instead of returning an error-bearing result,
  and the step is not completed.
\<close>

theorem system_exit_of_tool_not_caught:
  "action shutdown_step = TOOL_CALL \<and>
   tool_params demo_executor shutdown_step demo_context = Inr [(''user_id'', PInt 42)] \<and>
   tool_registry_get demo_executor (tool_name_of shutdown_step) =
     Some \<lparr>handler = demo_shutdown, signature_parameters = []\<rparr> \<and>
   demo_shutdown [] = Inl (PyBaseError ''SystemExit'' ''1'') \<and>
   execute demo_executor 100 101 shutdown_step demo_context (demo_db Task_running) =
     (Inl (PyBaseError ''SystemExit'' ''1''),
      shutdown_step\<lparr>status := RUNNING, started_at := Some 100\<rparr>,
      demo_context, demo_db Task_running)"
  by (simp add: step_defs demo_defs execute_def mark_running_def handle_tool_call_def
        tool_params_def tool_try_def tool_name_of_def filtered_params_def dict_defs)

text \<open>
  C4, amended. An instance of \<^verbatim>\<open>Exception\<close> raised inside the \<^verbatim>\<open>try\<close> block of an
  LLM_CALL step with a configured provider (in particular by the provider itself), or by
  the registered handler of a TOOL_CALL step, does not leave \<^verbatim>\<open>execute\<close>: the call
  returns a dictionary whose \<open>error\<close> entry is the exception's string (next to the purpose,
  respectively the tool name), the step is completed with that dictionary as its result,
  and the context records it like any other result. An exception that is not an instance
  of \<^verbatim>\<open>Exception\<close> is not caught: it leaves \<^verbatim>\<open>execute\<close>, the step stays running and
  the context is left alone.
\<close>

theorem handler_errors_become_results:
  "(action step = LLM_CALL \<longrightarrow> llm_service se = Some complete \<longrightarrow>
      llm_try se complete step ctx = Inl e \<longrightarrow> is_Exception e \<longrightarrow>
      execute se t_start t_end step ctx tm =
        (Inr (PDict [(''purpose'', llm_purpose step), (''error'', PStr (exn_str se e))]),
         step\<lparr>status := COMPLETED, started_at := Some t_start,
               result := PDict [(''purpose'', llm_purpose step), (''error'', PStr (exn_str se e))],
               completed_at := Some t_end\<rparr>,
         ctx\<lparr>step_results :=
                AList.update (step_id step)
                  (PDict [(''purpose'', llm_purpose step), (''error'', PStr (exn_str se e))])
                  (step_results ctx),
              steps_executed := steps_executed ctx + 1\<rparr>,
         tm)) \<and>
   (llm_prompts se step ctx = Inr (sys_prompt, user_prompt) \<longrightarrow>
      complete sys_prompt user_prompt (user_id ctx) (task_id ctx) = Inl e \<longrightarrow>
      llm_try se complete step ctx = Inl e) \<and>
   (action step = TOOL_CALL \<longrightarrow> tool_params se step ctx = Inr params \<longrightarrow>
      tool_registry_get se (tool_name_of step) = Some tool_spec \<longrightarrow>
      handler tool_spec (filtered_params tool_spec params) = Inl e \<longrightarrow> is_Exception e \<longrightarrow>
      execute se t_start t_end step ctx tm =
        (Inr (PDict [(''tool'', tool_name_of step), (''error'', PStr (exn_str se e))]),
         step\<lparr>status := COMPLETED, started_at := Some t_start,
               result := PDict [(''tool'', tool_name_of step), (''error'', PStr (exn_str se e))],
               completed_at := Some t_end\<rparr>,
         ctx\<lparr>step_results :=
                AList.update (step_id step)
                  (PDict [(''tool'', tool_name_of step), (''error'', PStr (exn_str se e))])
                  (step_results ctx),
              steps_executed := steps_executed ctx + 1\<rparr>,
         tm)) \<and>
   (action step = LLM_CALL \<longrightarrow> llm_service se = Some complete \<longrightarrow>
      llm_try se complete step ctx = Inl e \<longrightarrow> \<not> is_Exception e \<longrightarrow>
      execute se t_start t_end step ctx tm =
        (Inl e, step\<lparr>status := RUNNING, started_at := Some t_start\<rparr>, ctx, tm)) \<and>
   (action step = TOOL_CALL \<longrightarrow> tool_params se step ctx = Inr params \<longrightarrow>
      tool_registry_get se (tool_name_of step) = Some tool_spec \<longrightarrow>
      handler tool_spec (filtered_params tool_spec params) = Inl e \<longrightarrow> \<not> is_Exception e \<longrightarrow>
      execute se t_start t_end step ctx tm =
        (Inl e, step\<lparr>status := RUNNING, started_at := Some t_start\<rparr>, ctx, tm))"
proof (intro conjI impI)
  assume a: "action step = LLM_CALL" "llm_service se = Some complete"
            "llm_try se complete step ctx = Inl e" "is_Exception e"
  let ?r = "PDict [(''purpose'', llm_purpose step), (''error'', PStr (exn_str se e))]"
  have "handle_llm_call se step ctx = Inr ?r"
    using a by (simp add: handle_llm_call_def)
  then have "(\<lambda>step ctx tm. (handle_llm_call se step ctx, tm)) (mark_running t_start step) ctx tm
               = (Inr ?r, tm)"
    by simp
  moreover have "handlers se (action step) = Some (\<lambda>step ctx tm. (handle_llm_call se step ctx, tm))"
    using a by simp
  ultimately show "execute se t_start t_end step ctx tm =
        (Inr ?r,
         step\<lparr>status := COMPLETED, started_at := Some t_start, result := ?r,
               completed_at := Some t_end\<rparr>,
         ctx\<lparr>step_results := AList.update (step_id step) ?r (step_results ctx),
              steps_executed := steps_executed ctx + 1\<rparr>,
         tm)"
    by (rule execute_completed [rotated])
next
  assume "llm_prompts se step ctx = Inr (sys_prompt, user_prompt)"
         "complete sys_prompt user_prompt (user_id ctx) (task_id ctx) = Inl e"
  then show "llm_try se complete step ctx = Inl e"
    by (simp add: llm_try_def)
next
  assume a: "action step = TOOL_CALL" "tool_params se step ctx = Inr params"
            "tool_registry_get se (tool_name_of step) = Some tool_spec"
            "handler tool_spec (filtered_params tool_spec params) = Inl e" "is_Exception e"
  let ?r = "PDict [(''tool'', tool_name_of step), (''error'', PStr (exn_str se e))]"
  have "handle_tool_call se step ctx = Inr ?r"
    using a by (simp add: handle_tool_call_def tool_try_def)
  then have "(\<lambda>step ctx tm. (handle_tool_call se step ctx, tm)) (mark_running t_start step) ctx tm
               = (Inr ?r, tm)"
    by simp
  moreover have "handlers se (action step) = Some (\<lambda>step ctx tm. (handle_tool_call se step ctx, tm))"
    using a by simp
  ultimately show "execute se t_start t_end step ctx tm =
        (Inr ?r,
         step\<lparr>status := COMPLETED, started_at := Some t_start, result := ?r,
               completed_at := Some t_end\<rparr>,
         ctx\<lparr>step_results := AList.update (step_id step) ?r (step_results ctx),
              steps_executed := steps_executed ctx + 1\<rparr>,
         tm)"
    by (rule execute_completed [rotated])
next
  assume a: "action step = LLM_CALL" "llm_service se = Some complete"
            "llm_try se complete step ctx = Inl e" "\<not> is_Exception e"
  then obtain c m where e: "e = PyBaseError c m"
    by (cases e) simp_all
  have "handle_llm_call se step ctx = Inl e"
    using a by (simp add: handle_llm_call_def)
  with e have "(\<lambda>step ctx tm. (handle_llm_call se step ctx, tm)) (mark_running t_start step) ctx tm
                 = (Inl (PyBaseError c m), tm)"
    by simp
  moreover have "handlers se (action step) = Some (\<lambda>step ctx tm. (handle_llm_call se step ctx, tm))"
    using a by simp
  ultimately show "execute se t_start t_end step ctx tm =
        (Inl e, step\<lparr>status := RUNNING, started_at := Some t_start\<rparr>, ctx, tm)"
    unfolding e by (rule execute_base_error [rotated])
next
  assume a: "action step = TOOL_CALL" "tool_params se step ctx = Inr params"
            "tool_registry_get se (tool_name_of step) = Some tool_spec"
            "handler tool_spec (filtered_params tool_spec params) = Inl e" "\<not> is_Exception e"
  then obtain c m where e: "e = PyBaseError c m"
    by (cases e) simp_all
  have "handle_tool_call se step ctx = Inl e"
    using a by (simp add: handle_tool_call_def tool_try_def)
  with e have "(\<lambda>step ctx tm. (handle_tool_call se step ctx, tm)) (mark_running t_start step) ctx tm
                 = (Inl (PyBaseError c m), tm)"
    by simp
  moreover have "handlers se (action step) = Some (\<lambda>step ctx tm. (handle_tool_call se step ctx, tm))"
    using a by simp
  ultimately show "execute se t_start t_end step ctx tm =
        (Inl e, step\<lparr>status := RUNNING, started_at := Some t_start\<rparr>, ctx, tm)"
    unfolding e by (rule execute_base_error [rotated])
qed

theorem handler_errors_become_results_witness:
  "action llm_step = LLM_CALL \<and>
   llm_prompts demo_executor llm_step demo_context = Inr (PStr ''system'', PStr ''topic'') \<and>
   fst (execute demo_executor 100 101 llm_step demo_context (demo_db Task_running)) =
     Inr (PDict [(''purpose'', PStr ''research''), (''error'', PStr ''provider unavailable'')]) \<and>
   status (fst (snd (execute demo_executor 100 101 llm_step demo_context (demo_db Task_running))))
     = COMPLETED \<and>
   action parse_empty_step = TOOL_CALL \<and>
   tool_params demo_executor parse_empty_step demo_context =
     Inr [(''channel'', PStr []), (''depth'', PInt 3), (''user_id'', PInt 42)] \<and>
   demo_parse_channel [(''channel'', PStr [])] = Inl (PyError ''ValueError'' ''empty channel'') \<and>
   fst (execute demo_executor 100 101 parse_empty_step demo_context (demo_db Task_running)) =
     Inr (PDict [(''tool'', PStr ''parse_channel''), (''error'', PStr ''empty channel'')]) \<and>
   status (fst (snd (execute demo_executor 100 101 parse_empty_step demo_context
                       (demo_db Task_running)))) = COMPLETED \<and>
   llm_try interrupted_executor
       (\<lambda>sys_prompt user_prompt uid tid. Inl (PyBaseError ''KeyboardInterrupt'' []))
       llm_step demo_context = Inl (PyBaseError ''KeyboardInterrupt'' []) \<and>
   execute interrupted_executor 100 101 llm_step demo_context (demo_db Task_running) =
     (Inl (PyBaseError ''KeyboardInterrupt'' []),
      llm_step\<lparr>status := RUNNING, started_at := Some 100\<rparr>, demo_context,
      demo_db Task_running) \<and>
   action shutdown_step = TOOL_CALL \<and>
   demo_shutdown [] = Inl (PyBaseError ''SystemExit'' ''1'') \<and>
   execute demo_executor 100 101 shutdown_step demo_context (demo_db Task_running) =
     (Inl (PyBaseError ''SystemExit'' ''1''),
      shutdown_step\<lparr>status := RUNNING, started_at := Some 100\<rparr>, demo_context,
      demo_db Task_running)"
proof -
  let ?complete = "\<lambda>(sys_prompt::pyval) (user_prompt::pyval) (uid::int) (tid::int).
                     (Inl (PyError ''ConnectionError'' ''provider unavailable'') :: exn + LLMResponse)"
  let ?interrupt = "\<lambda>(sys_prompt::pyval) (user_prompt::pyval) (uid::int) (tid::int).
                     (Inl (PyBaseError ''KeyboardInterrupt'' []) :: exn + LLMResponse)"
  let ?spec = "\<lparr>handler = demo_parse_channel, signature_parameters = [''channel'', ''limit'']\<rparr>"
  let ?params = "[(''channel'', PStr []), (''depth'', PInt 3), (''user_id'', PInt 42)]"
  let ?stop = "\<lparr>handler = demo_shutdown, signature_parameters = []\<rparr>"
  have a1: "action llm_step = LLM_CALL" by (simp add: step_defs demo_step_def)
  have a2: "llm_service demo_executor = Some ?complete" by (simp add: demo_executor_def)
  have a3: "llm_prompts demo_executor llm_step demo_context = Inr (PStr ''system'', PStr ''topic'')"
    by (simp add: step_defs demo_defs llm_prompts_def llm_purpose_def llm_input_text_def
          prev_results_def dict_defs)
  have a4: "?complete (PStr ''system'') (PStr ''topic'') (user_id demo_context) (task_id demo_context)
              = Inl (PyError ''ConnectionError'' ''provider unavailable'')"
    by simp
  have a5: "is_Exception (PyError ''ConnectionError'' ''provider unavailable'')" by simp
  have b1: "action parse_empty_step = TOOL_CALL" by (simp add: step_defs demo_step_def)
  have b2: "tool_params demo_executor parse_empty_step demo_context = Inr ?params"
    by (simp add: step_defs demo_defs tool_params_def tool_name_of_def dict_defs)
  have b3: "tool_registry_get demo_executor (tool_name_of parse_empty_step) = Some ?spec"
    by (simp add: step_defs demo_defs tool_name_of_def dict_defs)
  have b4: "handler ?spec (filtered_params ?spec ?params) = Inl (PyError ''ValueError'' ''empty channel'')"
    by (simp add: filtered_params_def demo_parse_channel_def)
  have b5: "demo_parse_channel [(''channel'', PStr [])] = Inl (PyError ''ValueError'' ''empty channel'')"
    by (simp add: demo_parse_channel_def)
  have b6: "is_Exception (PyError ''ValueError'' ''empty channel'')" by simp
  have c2: "llm_service interrupted_executor = Some ?interrupt"
    by (simp add: interrupted_executor_def)
  have c3: "llm_prompts interrupted_executor llm_step demo_context =
              Inr (PStr ''system'', PStr ''topic'')"
    by (simp add: step_defs demo_defs llm_prompts_def llm_purpose_def llm_input_text_def
          prev_results_def dict_defs)
  have c4: "?interrupt (PStr ''system'') (PStr ''topic'') (user_id demo_context)
              (task_id demo_context) = Inl (PyBaseError ''KeyboardInterrupt'' [])"
    by simp
  have c5: "\<not> is_Exception (PyBaseError ''KeyboardInterrupt'' [])" by simp
  have d1: "action shutdown_step = TOOL_CALL" by (simp add: step_defs demo_step_def)
  have d2: "tool_params demo_executor shutdown_step demo_context = Inr [(''user_id'', PInt 42)]"
    by (simp add: step_defs demo_defs tool_params_def tool_name_of_def dict_defs)
  have d3: "tool_registry_get demo_executor (tool_name_of shutdown_step) = Some ?stop"
    by (simp add: step_defs demo_defs tool_name_of_def dict_defs)
  have d4: "handler ?stop (filtered_params ?stop [(''user_id'', PInt 42)]) =
              Inl (PyBaseError ''SystemExit'' ''1'')"
    by (simp add: filtered_params_def demo_shutdown_def)
  have d5: "demo_shutdown [] = Inl (PyBaseError ''SystemExit'' ''1'')"
    by (simp add: demo_shutdown_def)
  have d6: "\<not> is_Exception (PyBaseError ''SystemExit'' ''1'')" by simp
  note L = handler_errors_become_results
             [where step = llm_step and se = demo_executor and ctx = demo_context
                and complete = ?complete and t_start = 100 and t_end = 101
                and tm = "demo_db Task_running",
              THEN conjunct2, THEN conjunct1, rule_format, OF a3 a4]
  note A = handler_errors_become_results
             [where step = llm_step and se = demo_executor and ctx = demo_context
                and complete = ?complete and t_start = 100 and t_end = 101
                and tm = "demo_db Task_running",
              THEN conjunct1, rule_format, OF a1 a2 L a5]
  note B = handler_errors_become_results
             [where step = parse_empty_step and se = demo_executor and ctx = demo_context
                and t_start = 100 and t_end = 101 and tm = "demo_db Task_running",
              THEN conjunct2, THEN conjunct2, THEN conjunct1, rule_format, OF b1 b2 b3 b4 b6]
  note K = handler_errors_become_results
             [where step = llm_step and se = interrupted_executor and ctx = demo_context
                and complete = ?interrupt and t_start = 100 and t_end = 101
                and tm = "demo_db Task_running",
              THEN conjunct2, THEN conjunct1, rule_format, OF c3 c4]
  note C = handler_errors_become_results
             [where step = llm_step and se = interrupted_executor and ctx = demo_context
                and complete = ?interrupt and t_start = 100 and t_end = 101
                and tm = "demo_db Task_running",
              THEN conjunct2, THEN conjunct2, THEN conjunct2, THEN conjunct1, rule_format,
              OF a1 c2 K c5]
  note D = handler_errors_become_results
             [where step = shutdown_step and se = demo_executor and ctx = demo_context
                and t_start = 100 and t_end = 101 and tm = "demo_db Task_running",
              THEN conjunct2, THEN conjunct2, THEN conjunct2, THEN conjunct2, rule_format,
              OF d1 d2 d3 d4 d6]
  show ?thesis
    using a1 a3 b1 b2 b5 A B K C d1 d5 D
    by (simp add: step_defs demo_step_def llm_purpose_def tool_name_of_def dict_defs)
qed

text \<open>
  C8. For a TOOL_CALL step whose tool is registered, the handler is applied to the
  assembled argument map restricted to the names of its declared parameters, and to
  nothing else: every key of the arguments it receives is a declared parameter, and an
  argument under an undeclared name changes nothing in what the handler receives. What
  \<^verbatim>\<open>execute\<close> returns is the handler's outcome on those arguments, merged under the
  tool name, or turned into an error-bearing result (or raised again, when it is an
  exception outside \<^verbatim>\<open>Exception\<close>).
\<close>

theorem tool_handler_gets_declared_arguments:
  assumes "action step = TOOL_CALL"
      and "tool_params se step ctx = Inr params"
      and "tool_registry_get se (tool_name_of step) = Some tool_spec"
  shows "fst (execute se t_start t_end step ctx tm) =
           (case handler tool_spec
                   (filter (\<lambda>kv. fst kv \<in> set (signature_parameters tool_spec)) params) of
              Inl e \<Rightarrow>
                (if is_Exception e
                 then Inr (PDict [(''tool'', tool_name_of step), (''error'', PStr (exn_str se e))])
                 else Inl e)
            | Inr v \<Rightarrow>
                (case v of
                   PDict r \<Rightarrow> Inr (PDict (dict_merge [(''tool'', tool_name_of step)] r))
                 | _ \<Rightarrow>
                     Inr (PDict [(''tool'', tool_name_of step),
                                 (''error'', PStr (quoted (type_name v) @ '' object is not a mapping''))]))) \<and>
         filtered_params tool_spec params =
           filter (\<lambda>kv. fst kv \<in> set (signature_parameters tool_spec)) params \<and>
         fst ` set (filtered_params tool_spec params) \<subseteq> set (signature_parameters tool_spec) \<and>
         (\<forall>k v. k \<notin> set (signature_parameters tool_spec) \<longrightarrow>
            filtered_params tool_spec (AList.update k v params) = filtered_params tool_spec params)"
proof (intro conjI allI impI)
  have h: "handlers se (action step) = Some (\<lambda>step ctx tm. (handle_tool_call se step ctx, tm))"
    using assms(1) by simp
  show "fst (execute se t_start t_end step ctx tm) =
           (case handler tool_spec
                   (filter (\<lambda>kv. fst kv \<in> set (signature_parameters tool_spec)) params) of
              Inl e \<Rightarrow>
                (if is_Exception e
                 then Inr (PDict [(''tool'', tool_name_of step), (''error'', PStr (exn_str se e))])
                 else Inl e)
            | Inr v \<Rightarrow>
                (case v of
                   PDict r \<Rightarrow> Inr (PDict (dict_merge [(''tool'', tool_name_of step)] r))
                 | _ \<Rightarrow>
                     Inr (PDict [(''tool'', tool_name_of step),
                                 (''error'', PStr (quoted (type_name v) @ '' object is not a mapping''))])))"
  proof (cases "handler tool_spec (filtered_params tool_spec params)")
    case (Inl e)
    with assms show ?thesis
      by (simp add: execute_fst [OF h] handle_tool_call_def tool_try_def filtered_params_def)
  next
    case (Inr v)
    with assms show ?thesis
      by (cases v)
         (simp_all add: execute_fst [OF h] handle_tool_call_def tool_try_def filtered_params_def)
  qed
next
  show "filtered_params tool_spec params =
           filter (\<lambda>kv. fst kv \<in> set (signature_parameters tool_spec)) params"
    by (simp add: filtered_params_def)
next
  show "fst ` set (filtered_params tool_spec params) \<subseteq> set (signature_parameters tool_spec)"
    by (auto simp add: filtered_params_def)
next
  fix k v
  assume "k \<notin> set (signature_parameters tool_spec)"
  then show "filtered_params tool_spec (AList.update k v params) = filtered_params tool_spec params"
    by (simp add: filtered_params_def filter_update_dropped)
qed

theorem tool_handler_gets_declared_arguments_witness:
  "action parse_news_step = TOOL_CALL \<and>
   tool_params demo_executor parse_news_step demo_context =
     Inr [(''channel'', PStr ''@news''), (''depth'', PInt 3), (''user_id'', PInt 42)] \<and>
   tool_registry_get demo_executor (tool_name_of parse_news_step) =
     Some \<lparr>handler = demo_parse_channel, signature_parameters = [''channel'', ''limit'']\<rparr> \<and>
   filtered_params \<lparr>handler = demo_parse_channel, signature_parameters = [''channel'', ''limit'']\<rparr>
       [(''channel'', PStr ''@news''), (''depth'', PInt 3), (''user_id'', PInt 42)] =
     [(''channel'', PStr ''@news'')] \<and>
   fst (execute demo_executor 100 101 parse_news_step demo_context (demo_db Task_running)) =
     Inr (PDict [(''tool'', PStr ''parse_channel''), (''channel'', PStr ''@news''),
                 (''posts'', PList [])])"
proof -
  let ?spec = "\<lparr>handler = demo_parse_channel, signature_parameters = [''channel'', ''limit'']\<rparr>"
  let ?params = "[(''channel'', PStr ''@news''), (''depth'', PInt 3), (''user_id'', PInt 42)]"
  have b1: "action parse_news_step = TOOL_CALL" by (simp add: step_defs demo_step_def)
  have b2: "tool_params demo_executor parse_news_step demo_context = Inr ?params"
    by (simp add: step_defs demo_defs tool_params_def tool_name_of_def dict_defs)
  have b3: "tool_registry_get demo_executor (tool_name_of parse_news_step) = Some ?spec"
    by (simp add: step_defs demo_defs tool_name_of_def dict_defs)
  note T = tool_handler_gets_declared_arguments
             [OF b1 b2 b3, of 100 101 "demo_db Task_running"]
  show ?thesis
    using b1 b2 b3 T
    by (simp add: step_defs demo_step_def tool_name_of_def dict_defs demo_parse_channel_def)
qed

text \<open>
  Placeholders. For a TOOL_CALL step whose arguments are assembled without an exception
  and whose tool name is a string the registry does not know, \<^verbatim>\<open>execute\<close> returns the
  placeholder that depends only on the name and on \<^verbatim>\<open>action_data\<close>, and the step
  completes.
\<close>

lemma unregistered_tool_placeholder:
  assumes "action step = TOOL_CALL"
      and "tool_params se step ctx = Inr params"
      and "tool_name_of step = PStr name"
      and "tool_registry_get se (PStr name) = None"
  shows "fst (execute se t_start t_end step ctx tm) =
           Inr (if name = ''web_fetch'' then
                  PDict [(''tool'', PStr ''web_fetch''), (''content'', PStr ''Fetched page content...''),
                         (''url'', dict_get (action_data step) ''url'')]
                else if name = ''telegram_publish'' then
                  PDict [(''tool'', PStr ''telegram_publish''), (''success'', PBool True),
                         (''message_id'', PInt 12345),
                         (''channel'', dict_get (action_data step) ''channel'')]
                else PDict [(''tool'', PStr name), (''result'', PStr ''mock'')]) \<and>
         status (fst (snd (execute se t_start t_end step ctx tm))) = COMPLETED"
proof -
  let ?r = "if name = ''web_fetch'' then
                  PDict [(''tool'', PStr ''web_fetch''), (''content'', PStr ''Fetched page content...''),
                         (''url'', dict_get (action_data step) ''url'')]
                else if name = ''telegram_publish'' then
                  PDict [(''tool'', PStr ''telegram_publish''), (''success'', PBool True),
                         (''message_id'', PInt 12345),
                         (''channel'', dict_get (action_data step) ''channel'')]
                else PDict [(''tool'', PStr name), (''result'', PStr ''mock'')]"
  have "handle_tool_call se step ctx = Inr ?r"
    using assms by (simp add: handle_tool_call_def)
  then have "(\<lambda>step ctx tm. (handle_tool_call se step ctx, tm)) (mark_running t_start step) ctx tm
               = (Inr ?r, tm)"
    by simp
  moreover have "handlers se (action step) = Some (\<lambda>step ctx tm. (handle_tool_call se step ctx, tm))"
    using assms by simp
  ultimately have "execute se t_start t_end step ctx tm =
          (Inr ?r,
           step\<lparr>status := COMPLETED, started_at := Some t_start, result := ?r,
                 completed_at := Some t_end\<rparr>,
           ctx\<lparr>step_results := AList.update (step_id step) ?r (step_results ctx),
                steps_executed := steps_executed ctx + 1\<rparr>,
           tm)"
    by (rule execute_completed [rotated])
  then show ?thesis by simp
qed

text \<open>
  C5. The placeholder is not returned for every unregistered tool. The arguments of
  \<^verbatim>\<open>memory_store\<close> are assembled before the registry is consulted and outside any
  \<^verbatim>\<open>try\<close>, and the stored response of the source step is sliced there. With a source
  step whose response is \<^verbatim>\<open>None\<close> (a completion without content), the unregistered
  tool does not get its placeholder: \<^verbatim>\<open>execute\<close> raises \<^verbatim>\<open>TypeError\<close> and the step
  is failed.
\<close>

theorem unregistered_memory_store_fails:
  "action memory_store_step = TOOL_CALL \<and>
   tool_name_of memory_store_step = PStr ''memory_store'' \<and>
   tool_registry_get demo_executor (tool_name_of memory_store_step) = None \<and>
   execute demo_executor 100 101 memory_store_step demo_context (demo_db Task_running) =
     (Inl (PyError ''TypeError'' (quoted ''NoneType'' @ '' object is not subscriptable'')),
      memory_store_step\<lparr>status := FAILED, started_at := Some 100,
         error := Some (quoted ''NoneType'' @ '' object is not subscriptable''),
         completed_at := Some 101\<rparr>,
      demo_context, demo_db Task_running)"
  by (simp add: step_defs demo_defs tool_params_def tool_name_of_def dict_defs execute_def
        handle_tool_call_def mark_running_def)

section \<open>Who writes the status of a task\<close>

text \<open>
  C6, as stated, does not hold: \<^verbatim>\<open>SMMAgent\<close> moves a pending task to running with an
  \<^verbatim>\<open>UPDATE\<close> of its own on the \<^verbatim>\<open>tasks\<close> row. No event is appended, and none of
  \<open>pause\<close>, \<open>succeed\<close> and \<open>fail\<close> makes that change: on the pending task each of them is
  refused and leaves the store as it is.
\<close>

theorem smm_agent_writes_task_status:
  "task_status_of (demo_db Task_pending) 7 = Some Task_pending \<and>
   task_status_of (smm_agent_update_task_running 1000 7 (demo_db Task_pending)) 7 = Some Task_running \<and>
   task_events (smm_agent_update_task_running 1000 7 (demo_db Task_pending)) = [] \<and>
   tm_pause (demo_db Task_pending) 7 PauseReason_APPROVAL [] =
     (Some (PyError ''OrderingViolation'' ''task is not running''), demo_db Task_pending) \<and>
   tm_succeed (demo_db Task_pending) 7 PNone =
     (Some (PyError ''OrderingViolation'' ''task is not running''), demo_db Task_pending) \<and>
   tm_fail (demo_db Task_pending) 7 ''rejected'' =
     (Some (PyError ''OrderingViolation'' ''task is not running or paused''), demo_db Task_pending)"
  by (simp add: demo_defs tm_defs smm_agent_update_task_running_def)

text \<open>
  C6, amended. The step executor changes the task manager's state only through
  \<^verbatim>\<open>TaskManager.pause\<close>, called by the handler of an APPROVAL step for the context's task
  with the approval payload; a step of any other kind, and an APPROVAL step whose draft
  lookup raises, leaves it as it was. \<^verbatim>\<open>SMMAgent\<close>, however, writes the status of a task
  directly: its \<^verbatim>\<open>UPDATE\<close> sets the row of the task to status running, locked by
  \<^verbatim>\<open>'smm_agent'\<close> at \<open>now\<close>, with a lease that expires at \<open>now + 300\<close>, started and updated
  at \<open>now\<close>; the other columns of the row and the rows of other tasks stay as they were,
  and no event is appended.
\<close>

theorem task_status_writers:
  "(if action step = APPROVAL then
      (case approval_draft_content step ctx of
         Inl e \<Rightarrow> snd (snd (snd (execute se t_start t_end step ctx tm))) = tm
       | Inr draft \<Rightarrow>
           snd (snd (snd (execute se t_start t_end step ctx tm))) =
             snd (task_manager_pause se tm (task_id ctx) PauseReason_APPROVAL
                    [(''step_id'', PStr (step_id step)), (''message'', approval_message step),
                     (''draft_content'', draft)]))
    else snd (snd (snd (execute se t_start t_end step ctx tm))) = tm) \<and>
   (find (\<lambda>r. tasks_id r = tid) (tasks db) = Some row \<longrightarrow>
      find (\<lambda>r. tasks_id r = tid) (tasks (smm_agent_update_task_running now tid db)) =
        Some (row\<lparr>tasks_status := Task_running, tasks_locked_by := Some ''smm_agent'',
                  tasks_locked_at := Some now, tasks_lease_expires_at := Some (now + 300),
                  tasks_started_at := Some now, tasks_updated_at := Some now\<rparr>) \<and>
      task_status_of (smm_agent_update_task_running now tid db) tid = Some Task_running) \<and>
   task_events (smm_agent_update_task_running now tid db) = task_events db \<and>
   filter (\<lambda>r. tasks_id r \<noteq> tid) (tasks (smm_agent_update_task_running now tid db)) =
     filter (\<lambda>r. tasks_id r \<noteq> tid) (tasks db)"
proof (intro conjI impI)
  show "if action step = APPROVAL then
      (case approval_draft_content step ctx of
         Inl e \<Rightarrow> snd (snd (snd (execute se t_start t_end step ctx tm))) = tm
       | Inr draft \<Rightarrow>
           snd (snd (snd (execute se t_start t_end step ctx tm))) =
             snd (task_manager_pause se tm (task_id ctx) PauseReason_APPROVAL
                    [(''step_id'', PStr (step_id step)), (''message'', approval_message step),
                     (''draft_content'', draft)]))
    else snd (snd (snd (execute se t_start t_end step ctx tm))) = tm"
  proof (cases "action step")
    case APPROVAL
    show ?thesis
    proof (cases "approval_draft_content step ctx")
      case (Inl e)
      with APPROVAL have "snd (snd (snd (execute se t_start t_end step ctx tm))) = tm"
        by (cases e) (simp_all add: execute_def handle_approval_def)
      with APPROVAL Inl show ?thesis by simp
    next
      case (Inr draft)
      obtain raised tm' where
        p: "task_manager_pause se tm (task_id ctx) PauseReason_APPROVAL
              [(''step_id'', PStr (step_id step)), (''message'', approval_message step),
               (''draft_content'', draft)] = (raised, tm')"
        by (cases "task_manager_pause se tm (task_id ctx) PauseReason_APPROVAL
              [(''step_id'', PStr (step_id step)), (''message'', approval_message step),
               (''draft_content'', draft)]") blast
      have "snd (snd (snd (execute se t_start t_end step ctx tm))) = tm'"
      proof (cases raised)
        case None
        with APPROVAL Inr p show ?thesis
          by (simp add: execute_def handle_approval_def approval_payload_def Let_def)
      next
        case (Some e)
        with APPROVAL Inr p show ?thesis
          by (cases e) (simp_all add: execute_def handle_approval_def approval_payload_def Let_def)
      qed
      with APPROVAL Inr p show ?thesis by simp
    qed
  qed (auto simp add: execute_def Let_def split: sum.splits exn.splits)
next
  assume a: "find (\<lambda>r. tasks_id r = tid) (tasks db) = Some row"
  then show "find (\<lambda>r. tasks_id r = tid) (tasks (smm_agent_update_task_running now tid db)) =
        Some (row\<lparr>tasks_status := Task_running, tasks_locked_by := Some ''smm_agent'',
                  tasks_locked_at := Some now, tasks_lease_expires_at := Some (now + 300),
                  tasks_started_at := Some now, tasks_updated_at := Some now\<rparr>)"
    by (simp add: smm_agent_update_task_running_def update_task_rows_def find_map_update)
  from a show "task_status_of (smm_agent_update_task_running now tid db) tid = Some Task_running"
    by (simp add: task_status_of_def smm_agent_update_task_running_def update_task_rows_def
          find_map_update)
next
  show "task_events (smm_agent_update_task_running now tid db) = task_events db"
    by (simp add: smm_agent_update_task_running_def update_task_rows_def)
next
  show "filter (\<lambda>r. tasks_id r \<noteq> tid) (tasks (smm_agent_update_task_running now tid db)) =
        filter (\<lambda>r. tasks_id r \<noteq> tid) (tasks db)"
    by (simp add: smm_agent_update_task_running_def update_task_rows_def other_rows_unchanged)
qed

theorem task_status_writers_witness:
  "find (\<lambda>r. tasks_id r = 7) (tasks (demo_db Task_pending)) = Some (demo_task Task_pending) \<and>
   find (\<lambda>r. tasks_id r = 7) (tasks (smm_agent_update_task_running 1000 7 (demo_db Task_pending))) =
     Some \<lparr>tasks_id = 7, tasks_status = Task_running, tasks_result = PNone, tasks_error = None,
           tasks_locked_by = Some ''smm_agent'', tasks_locked_at = Some 1000,
           tasks_lease_expires_at = Some 1300, tasks_started_at = Some 1000,
           tasks_updated_at = Some 1000\<rparr> \<and>
   task_status_of (smm_agent_update_task_running 1000 7 (demo_db Task_pending)) 7 =
     Some Task_running \<and>
   task_events (smm_agent_update_task_running 1000 7 (demo_db Task_pending)) =
     task_events (demo_db Task_pending)"
proof -
  have h: "find (\<lambda>r. tasks_id r = 7) (tasks (demo_db Task_pending)) = Some (demo_task Task_pending)"
    by (simp add: demo_defs)
  note T = task_status_writers
             [where db = "demo_db Task_pending" and tid = 7 and now = 1000
                and row = "demo_task Task_pending"
                and se = demo_executor and step = approve_step and ctx = demo_context
                and tm = "demo_db Task_running" and t_start = 100 and t_end = 101]
  note T1 = T [THEN conjunct2, THEN conjunct1, rule_format, OF h]
  note T2 = T [THEN conjunct2, THEN conjunct2, THEN conjunct1]
  show ?thesis using h T1 T2 by (simp add: demo_task_def)
qed

end
